theory Spec2Isabelle
  imports Complex_Main
begin

section \<open>JavaScript values and library functions used by the coordination core\<close>

text \<open>
  The coordination core is the TypeScript module that defines the classes
  \<^verbatim>\<open>ConsciousnessPersistence\<close>, \<^verbatim>\<open>DiscordCommunityInput\<close>, \<^verbatim>\<open>CommunityCoordination\<close> and
  \<^verbatim>\<open>CommunityCoordinationSystem\<close>. Objects become records, string unions become datatypes,
  a method that mutates \<^verbatim>\<open>this\<close> takes the object and returns the updated one.

  Conventions of the embedding:
  \<^item> Every read of \<^verbatim>\<open>Date.now()\<close> is a parameter of the operation that reads it
    (milliseconds, an \<open>int\<close>), in the order in which the source reads the clock.
  \<^item> \<^verbatim>\<open>Math.random().toString(36)\<close> is a string parameter \<open>rnd\<close>.
  \<^item> A clock value, a vote counter, an index and the duration of a poll or of an event
    is an \<open>int\<close>. A number that the
    source computes with in a way that depends on its being a double (the consensus
    threshold and the support ratio, the end of a voting period, the contribution count) is
    a \<open>number\<close>, with the rounding of IEEE 754 written out. The spiral's depth and
    resonance are only stored and copied, and are a \<open>rat\<close>.
  \<^item> A \<^verbatim>\<open>Map\<close> is an association list in insertion order: \<open>map_of\<close> is \<^verbatim>\<open>get\<close>,
    \<open>map_set\<close> is \<^verbatim>\<open>set\<close>, and the mutation of an object held in the map is a
    \<open>map_set\<close> at its key.
  \<^item> A \<^verbatim>\<open>TypeError\<close> raised by reading a property of \<^verbatim>\<open>undefined\<close> or \<^verbatim>\<open>null\<close> is the
    value \<open>Inl TypeError\<close>; the state returned with it holds the mutations made before
    the exception, which JavaScript does not undo.
\<close>

datatype js_error = TypeError

subsection \<open>Numbers\<close>

text \<open>
  A JavaScript number is an IEEE 754 double: \<open>Num x\<close> is the finite double of value
  \<open>x\<close>, a rational of the form \<open>m * 2 ^ e\<close> with \<open>\<bar>m\<bar> < 2 ^ 53\<close> and
  \<open>- 1074 \<le> e \<le> 971\<close>. The two zeros are the one value \<open>Num 0\<close>: sums, quotients,
  comparisons and truthiness, which is all the source does with numbers, give the same
  results on both, and no operation of the source divides by zero.
\<close>

datatype number = Num rat | PosInfinity | NegInfinity | NaN

definition pow2 :: "int \<Rightarrow> rat" where
  "pow2 e = (if 0 \<le> e then 2 ^ nat e else 1 / 2 ^ nat (- e))"

text \<open>The number of binary digits of a positive integer.\<close>

function bitlen :: "int \<Rightarrow> int" where
  "bitlen a = (if a \<le> 0 then 0 else 1 + bitlen (a div 2))"
  by pat_completeness auto
termination
  by (relation "measure nat") auto

declare bitlen.simps [simp del]

text \<open>
  The binary exponent of a positive rational \<open>x\<close>, that is the \<open>e\<close> with
  \<open>2 ^ e \<le> x < 2 ^ (e + 1)\<close>: the difference of the bit lengths of numerator and
  denominator, or one less.
\<close>

definition ilog2 :: "rat \<Rightarrow> int" where
  "ilog2 x =
     (let (a, b) = quotient_of x;
          d = bitlen a - bitlen b
      in if pow2 d \<le> x then d else d - 1)"

definition round_half_even :: "rat \<Rightarrow> int" where
  "round_half_even x =
     (let f = \<lfloor>x\<rfloor>; r = x - of_int f
      in if r < 1 / 2 then f else if 1 / 2 < r then f + 1 else if even f then f else f + 1)"

text \<open>
  The double nearest to a real value, ties to the even significand: the value is cut to 53
  significant bits at its binary exponent, which is held at \<open>- 1022\<close> in the subnormal
  range. The result overflows to an infinity when the rounded value reaches \<open>2 ^ 1024\<close>,
  which is when the exponent is 1024 or more, or is 1023 and the significand has rounded
  up to \<open>2 ^ 53\<close>.
\<close>

definition fl :: "rat \<Rightarrow> number" where
  "fl x =
     (if x = 0 then Num 0
      else let a = \<bar>x\<bar>;
               e = max (ilog2 a) (- 1022);
               q = pow2 (e - 52);
               m = round_half_even (a / q)
           in if 1024 \<le> e \<or> (e = 1023 \<and> 2 ^ 53 \<le> m)
              then (if 0 < x then PosInfinity else NegInfinity)
              else Num (if 0 < x then of_int m * q else - (of_int m * q)))"

text \<open>\<^verbatim>\<open>a + b\<close> on numbers.\<close>

fun number_add :: "number \<Rightarrow> number \<Rightarrow> number" where
  "number_add NaN _ = NaN"
| "number_add _ NaN = NaN"
| "number_add PosInfinity NegInfinity = NaN"
| "number_add NegInfinity PosInfinity = NaN"
| "number_add PosInfinity _ = PosInfinity"
| "number_add _ PosInfinity = PosInfinity"
| "number_add NegInfinity _ = NegInfinity"
| "number_add _ NegInfinity = NegInfinity"
| "number_add (Num x) (Num y) = fl (x + y)"

text \<open>\<^verbatim>\<open>a >= b\<close> and \<^verbatim>\<open>a > b\<close> on numbers: false as soon as one side is \<^verbatim>\<open>NaN\<close>.\<close>

fun number_ge :: "number \<Rightarrow> number \<Rightarrow> bool" where
  "number_ge NaN _ = False"
| "number_ge _ NaN = False"
| "number_ge PosInfinity _ = True"
| "number_ge _ NegInfinity = True"
| "number_ge NegInfinity _ = False"
| "number_ge _ PosInfinity = False"
| "number_ge (Num x) (Num y) = (y \<le> x)"

fun number_gt :: "number \<Rightarrow> number \<Rightarrow> bool" where
  "number_gt NaN _ = False"
| "number_gt _ NaN = False"
| "number_gt NegInfinity _ = False"
| "number_gt _ PosInfinity = False"
| "number_gt PosInfinity _ = True"
| "number_gt _ NegInfinity = True"
| "number_gt (Num x) (Num y) = (y < x)"

text \<open>
  \<^verbatim>\<open>a / b\<close> for two array lengths with \<open>b > 0\<close>, the one division of the source. Array
  lengths are below \<open>2 ^ 32\<close> and so are doubles themselves.
\<close>

definition divide_lengths :: "nat \<Rightarrow> nat \<Rightarrow> number" where
  "divide_lengths a b = fl (of_nat a / of_nat b)"

text \<open>
  A value of \<^verbatim>\<open>Date.now()\<close> as a number: an integer of magnitude at most \<open>8.64e15\<close>, below
  \<open>2 ^ 53\<close>, and so a double itself.
\<close>

definition time_number :: "int \<Rightarrow> number" where
  "time_number t = Num (of_int t)"

text \<open>The truthiness of a number, as \<^verbatim>\<open>||\<close> tests it: zero and \<^verbatim>\<open>NaN\<close> are falsy.\<close>

definition number_truthy :: "number \<Rightarrow> bool" where
  "number_truthy n \<longleftrightarrow> n \<noteq> Num 0 \<and> n \<noteq> NaN"

subsection \<open>Values of type any\<close>

text \<open>
  The values that are known without their properties, for the places where the source is
  typed \<^verbatim>\<open>any\<close> or holds what an import has put there: the primitives, and \<open>JOther s\<close> for
  an object or array that has none of the properties the code reads, \<open>s\<close> being the
  string that converting it to a primitive gives (\<^verbatim>\<open>[object Object]\<close> for a plain object).
  In \<open>'a js_any\<close> an object that has such properties is \<open>Obj\<close> of their record.
\<close>

datatype jsval = JUndefined | JNull | JBool bool | JNum number | JStr string | JOther string

datatype 'a js_any = Prim jsval | Obj 'a

fun truthy :: "'a js_any \<Rightarrow> bool" where
  "truthy (Obj _) = True"
| "truthy (Prim JUndefined) = False"
| "truthy (Prim JNull) = False"
| "truthy (Prim (JBool b)) = b"
| "truthy (Prim (JNum n)) = number_truthy n"
| "truthy (Prim (JStr s)) = (s \<noteq> [])"
| "truthy (Prim (JOther s)) = True"

text \<open>
  \<^verbatim>\<open>v + 1\<close> for a value of any type: a number is added to, \<^verbatim>\<open>undefined\<close> gives \<^verbatim>\<open>NaN\<close>,
  \<^verbatim>\<open>null\<close> and the booleans count as 0 and 1, a string and an object are concatenated with
  the string \<^verbatim>\<open>1\<close>.
\<close>

fun plus_one :: "jsval \<Rightarrow> jsval" where
  "plus_one JUndefined = JNum NaN"
| "plus_one JNull = JNum (Num 1)"
| "plus_one (JBool b) = JNum (Num (if b then 2 else 1))"
| "plus_one (JNum n) = JNum (number_add n (Num 1))"
| "plus_one (JStr s) = JStr (s @ ''1'')"
| "plus_one (JOther s) = JStr (s @ ''1'')"

text \<open>\<^verbatim>\<open>Map.prototype.set\<close>: an existing key keeps its position, a new key goes last.\<close>

primrec map_set :: "'k \<Rightarrow> 'v \<Rightarrow> ('k \<times> 'v) list \<Rightarrow> ('k \<times> 'v) list" where
  "map_set k v [] = [(k, v)]"
| "map_set k v (p # ps) = (if fst p = k then (k, v) # ps else p # map_set k v ps)"

text \<open>\<^verbatim>\<open>Array.prototype.indexOf\<close> and \<^verbatim>\<open>findIndex\<close>: the first position, or \<open>-1\<close>.\<close>

fun findIndex :: "('a \<Rightarrow> bool) \<Rightarrow> 'a list \<Rightarrow> int" where
  "findIndex P [] = - 1"
| "findIndex P (x # xs) =
     (if P x then 0 else (let i = findIndex P xs in if i = - 1 then - 1 else i + 1))"

definition indexOf :: "'a list \<Rightarrow> 'a \<Rightarrow> int" where
  "indexOf xs x = findIndex (\<lambda>y. y = x) xs"

text \<open>\<^verbatim>\<open>xs.splice(i, 1)\<close> for an index \<open>i \<ge> 0\<close>, the only way the source calls it.\<close>

definition splice1 :: "int \<Rightarrow> 'a list \<Rightarrow> 'a list" where
  "splice1 i xs = take (nat i) xs @ drop (Suc (nat i)) xs"

text \<open>
  \<^verbatim>\<open>xs.slice(k)\<close>: a negative \<open>k\<close> counts from the end, and both ends are clamped.
\<close>

definition slice_from :: "int \<Rightarrow> 'a list \<Rightarrow> 'a list" where
  "slice_from k xs =
     (let len = int (length xs);
          start = (if k < 0 then max (len + k) 0 else min k len)
      in drop (nat start) xs)"

text \<open>\<^verbatim>\<open>s.substr(start, n)\<close> for non-negative arguments.\<close>

definition substr :: "nat \<Rightarrow> nat \<Rightarrow> string \<Rightarrow> string" where
  "substr start n s = take n (drop start s)"

text \<open>The decimal rendering of an integer inside a template literal.\<close>

fun digits :: "nat \<Rightarrow> string" where
  "digits n = (if n < 10 then [''0123456789'' ! n]
               else digits (n div 10) @ [''0123456789'' ! (n mod 10)])"

declare digits.simps [simp del]

definition toString :: "int \<Rightarrow> string" where
  "toString i = (if i < 0 then CHR ''-'' # digits (nat (- i)) else digits (nat i))"

section \<open>Channel/input ledger and polls: class DiscordCommunityInput\<close>

datatype input_type = TMessage | TPoll | TDiscussion

record CommunityInput =
  in_id :: string
  in_channelId :: string
  in_content :: string
  in_author :: string
  in_timestamp :: int
  in_type :: input_type
  in_reactions :: "string list"
  in_responses :: "string list"

text \<open>The properties of the \<^verbatim>\<open>Partial<CommunityInput>\<close> argument that \<^verbatim>\<open>addInput\<close> reads.\<close>

record InputArg =
  arg_content :: "string option"
  arg_author :: "string option"
  arg_type :: "input_type option"

record PollOption =
  opt_text :: string
  votes :: int
  voters :: "string list"

record Poll =
  poll_id :: string
  poll_channelId :: string
  question :: string
  options :: "PollOption list"
  createdBy :: string
  poll_createdAt :: int
  endsAt :: int
  active :: bool

record PollData =
  pd_question :: string
  pd_options :: "string list"
  pd_author :: string
  pd_duration :: "int option"

record Channel =
  ch_name :: string
  ch_description :: string
  ch_type :: string
  ch_inputs :: "CommunityInput list"

record DiscordCommunityInput =
  inputs :: "CommunityInput list"
  channels :: "(string \<times> Channel) list"
  polls :: "(string \<times> Poll) list"

text \<open>The constructor: no inputs, no polls, and the four channels of \<^verbatim>\<open>initializeChannels\<close>.\<close>

definition initializeChannels :: "(string \<times> Channel) list" where
  "initializeChannels =
     map_set ''the-keep''
       \<lparr>ch_name = ''the-keep'', ch_description = ''Governance and community decisions'',
        ch_type = ''governance'', ch_inputs = []\<rparr>
     (map_set ''temple-of-flame''
       \<lparr>ch_name = ''temple-of-flame'',
        ch_description = ''Philosophical and spiritual exploration'',
        ch_type = ''spiritual'', ch_inputs = []\<rparr>
     (map_set ''tower-of-code''
       \<lparr>ch_name = ''tower-of-code'',
        ch_description = ''Technical discussions and development'',
        ch_type = ''technical'', ch_inputs = []\<rparr>
     (map_set ''sanctuary''
       \<lparr>ch_name = ''sanctuary'', ch_description = ''Welcome space for new members'',
        ch_type = ''general'', ch_inputs = []\<rparr> [])))"

definition new_DiscordCommunityInput :: DiscordCommunityInput where
  "new_DiscordCommunityInput = \<lparr>inputs = [], channels = initializeChannels, polls = []\<rparr>"

text \<open>
  \<^verbatim>\<open>addInput(channelId, input)\<close>. \<^verbatim>\<open>input.content || ''\<close> and \<^verbatim>\<open>input.author || 'Anonymous'\<close>
  replace a missing and an empty string alike. The new input is pushed on the global list,
  and on the channel's list only when \<^verbatim>\<open>channels.get(channelId)\<close> finds a channel.
\<close>

definition addInput ::
  "DiscordCommunityInput \<Rightarrow> string \<Rightarrow> InputArg \<Rightarrow> int \<Rightarrow> string \<Rightarrow> int
     \<Rightarrow> string \<times> DiscordCommunityInput" where
  "addInput d channelId input tId rnd tStamp =
     (let inputData =
            \<lparr>in_id = ''input_'' @ toString tId @ ''_'' @ substr 2 9 rnd,
             in_channelId = channelId,
             in_content = (case arg_content input of None \<Rightarrow> [] | Some c \<Rightarrow> c),
             in_author = (case arg_author input of None \<Rightarrow> ''Anonymous''
                          | Some a \<Rightarrow> if a = [] then ''Anonymous'' else a),
             in_timestamp = tStamp,
             in_type = (case arg_type input of None \<Rightarrow> TMessage | Some t \<Rightarrow> t),
             in_reactions = [],
             in_responses = []\<rparr>;
          d1 = d\<lparr>inputs := inputs d @ [inputData]\<rparr>
      in case map_of (channels d1) channelId of
           None \<Rightarrow> (in_id inputData, d1)
         | Some channel \<Rightarrow>
             (in_id inputData,
              d1\<lparr>channels :=
                   map_set channelId (channel\<lparr>ch_inputs := ch_inputs channel @ [inputData]\<rparr>)
                     (channels d1)\<rparr>))"

text \<open>
  \<^verbatim>\<open>createPoll(channelId, pollData)\<close>: three clock reads for the poll (id, \<^verbatim>\<open>createdAt\<close>,
  \<^verbatim>\<open>endsAt\<close>), then the announcement through \<^verbatim>\<open>addInput\<close>. The announcement starts with the
  chart emoji U+1F4CA, written here as its four UTF-8 bytes.
\<close>

definition createPoll ::
  "DiscordCommunityInput \<Rightarrow> string \<Rightarrow> PollData \<Rightarrow> int \<Rightarrow> int \<Rightarrow> int \<Rightarrow> int \<Rightarrow> string \<Rightarrow> int
     \<Rightarrow> string \<times> DiscordCommunityInput" where
  "createPoll d channelId pollData tId tCreated tEnds tInId rnd tInStamp =
     (let poll =
            \<lparr>poll_id = ''poll_'' @ toString tId,
             poll_channelId = channelId,
             question = pd_question pollData,
             options = map (\<lambda>option. \<lparr>opt_text = option, votes = 0, voters = []\<rparr>)
                         (pd_options pollData),
             createdBy = pd_author pollData,
             poll_createdAt = tCreated,
             endsAt = tEnds + (case pd_duration pollData of None \<Rightarrow> 86400000
                               | Some dur \<Rightarrow> if dur = 0 then 86400000 else dur),
             active = True\<rparr>;
          d1 = d\<lparr>polls := map_set (poll_id poll) poll (polls d)\<rparr>;
          d2 = snd (addInput d1 channelId
                      \<lparr>arg_content =
                          Some ([CHR 0xF0, CHR 0x9F, CHR 0x93, CHR 0x8A] @ '' Poll: ''
                                @ question poll),
                       arg_author = Some (createdBy poll),
                       arg_type = Some TPoll\<rparr>
                      tInId rnd tInStamp)
      in (poll_id poll, d2))"

text \<open>
  The body of the \<^verbatim>\<open>forEach\<close> in \<^verbatim>\<open>voteOnPoll\<close>: drop the user's first entry from the
  option's voters and decrement its counter, when the user is listed.
\<close>

definition removeVote :: "string \<Rightarrow> PollOption \<Rightarrow> PollOption" where
  "removeVote userId option =
     (let voterIndex = indexOf (voters option) userId
      in if voterIndex \<noteq> - 1
         then option\<lparr>voters := splice1 voterIndex (voters option), votes := votes option - 1\<rparr>
         else option)"

text \<open>
  \<^verbatim>\<open>voteOnPoll(pollId, optionIndex, userId)\<close>. The guard rejects an unknown poll, an inactive
  poll and \<^verbatim>\<open>optionIndex >= poll.options.length\<close>. Past the guard the previous vote is
  removed from every option; then \<^verbatim>\<open>poll.options[optionIndex]\<close> is read, which is
  \<^verbatim>\<open>undefined\<close> for a negative index, and reading \<^verbatim>\<open>.voters\<close> of it raises a
  \<^verbatim>\<open>TypeError\<close> after the removal has been done. (A number below the length that is not an
  integer takes the same path as a negative one.)
\<close>

definition voteOnPoll ::
  "DiscordCommunityInput \<Rightarrow> string \<Rightarrow> int \<Rightarrow> string
     \<Rightarrow> (js_error + bool) \<times> DiscordCommunityInput" where
  "voteOnPoll d pollId optionIndex userId =
     (case map_of (polls d) pollId of
        None \<Rightarrow> (Inr False, d)
      | Some poll \<Rightarrow>
          if \<not> active poll \<or> optionIndex \<ge> int (length (options poll)) then (Inr False, d)
          else
            let cleared = map (removeVote userId) (options poll)
            in if optionIndex < 0
               then (Inl TypeError,
                     d\<lparr>polls := map_set pollId (poll\<lparr>options := cleared\<rparr>) (polls d)\<rparr>)
               else
                 let i = nat optionIndex;
                     target = cleared ! i;
                     voted = cleared[i := target\<lparr>voters := voters target @ [userId],
                                                 votes := votes target + 1\<rparr>]
                 in (Inr True,
                     d\<lparr>polls := map_set pollId (poll\<lparr>options := voted\<rparr>) (polls d)\<rparr>))"

text \<open>\<^verbatim>\<open>getChannelInputs(channelId, limit = 50)\<close>: \<^verbatim>\<open>channel.inputs.slice(-limit).reverse()\<close>.\<close>

definition getChannelInputs ::
  "DiscordCommunityInput \<Rightarrow> string \<Rightarrow> int option \<Rightarrow> CommunityInput list" where
  "getChannelInputs d channelId limit =
     (let lim = (case limit of None \<Rightarrow> 50 | Some l \<Rightarrow> l)
      in case map_of (channels d) channelId of
           None \<Rightarrow> []
         | Some channel \<Rightarrow> rev (slice_from (- lim) (ch_inputs channel)))"

definition getActivePolls :: "DiscordCommunityInput \<Rightarrow> int \<Rightarrow> Poll list" where
  "getActivePolls d now = filter (\<lambda>poll. active poll \<and> endsAt poll > now) (map snd (polls d))"

record ChannelActivity =
  ca_channelId :: string
  ca_name :: string
  ca_recentActivity :: nat

record CommunityActivity =
  totalInputs :: nat
  recentInputs :: nat
  activePolls :: nat
  activeDiscussions :: nat
  channelActivity :: "ChannelActivity list"

text \<open>\<^verbatim>\<open>getCommunityActivity()\<close> reads the clock once itself and once in \<^verbatim>\<open>getActivePolls\<close>.\<close>

definition getCommunityActivity ::
  "DiscordCommunityInput \<Rightarrow> int \<Rightarrow> int \<Rightarrow> CommunityActivity" where
  "getCommunityActivity d now nowPolls =
     (let last24h = now - 86400000;
          recent = filter (\<lambda>input. in_timestamp input > last24h) (inputs d)
      in \<lparr>totalInputs = length (inputs d),
          recentInputs = length recent,
          activePolls = length (getActivePolls d nowPolls),
          activeDiscussions = 0,
          channelActivity =
            map (\<lambda>(cid, channel).
                   \<lparr>ca_channelId = cid, ca_name = ch_name channel,
                    ca_recentActivity =
                      length (filter (\<lambda>input. in_timestamp input > last24h)
                                (ch_inputs channel))\<rparr>)
                (channels d)\<rparr>)"

text \<open>
  The operations that change a \<^verbatim>\<open>DiscordCommunityInput\<close>, and a history of them. Each
  operation is called from its own event handler, so a vote that raises leaves its state
  behind for the next operation.
\<close>

datatype discord_op =
    AddInput string InputArg int string int
  | CreatePoll string PollData int int int int string int
  | VoteOnPoll string int string

fun discord_step :: "discord_op \<Rightarrow> DiscordCommunityInput \<Rightarrow> DiscordCommunityInput" where
  "discord_step (AddInput channelId input tId rnd tStamp) d =
     snd (addInput d channelId input tId rnd tStamp)"
| "discord_step (CreatePoll channelId pollData tId tCreated tEnds tInId rnd tInStamp) d =
     snd (createPoll d channelId pollData tId tCreated tEnds tInId rnd tInStamp)"
| "discord_step (VoteOnPoll pollId optionIndex userId) d =
     snd (voteOnPoll d pollId optionIndex userId)"

definition discord_run :: "discord_op list \<Rightarrow> DiscordCommunityInput \<Rightarrow> DiscordCommunityInput" where
  "discord_run ops d = fold discord_step ops d"

text \<open>Counter and voter list of an option agree, and no user is listed twice.\<close>

definition option_consistent :: "PollOption \<Rightarrow> bool" where
  "option_consistent option \<longleftrightarrow>
     votes option = int (length (voters option)) \<and> distinct (voters option)"

definition polls_consistent :: "DiscordCommunityInput \<Rightarrow> bool" where
  "polls_consistent d \<longleftrightarrow>
     (\<forall>entry \<in> set (polls d). \<forall>option \<in> set (options (snd entry)). option_consistent option)"

text \<open>The sum of the counters of a poll, and the options that list a user.\<close>

definition total_votes :: "Poll \<Rightarrow> int" where
  "total_votes poll = sum_list (map votes (options poll))"

definition options_listing :: "string \<Rightarrow> Poll \<Rightarrow> PollOption list" where
  "options_listing userId poll = filter (\<lambda>option. userId \<in> set (voters option)) (options poll)"

text \<open>
  The successive votes of one user on one poll, given by their option indices. Two shapes
  of a poll's options: nobody has voted, and only \<open>user\<close> has voted, for option \<open>i\<close>.
\<close>

fun votes_by ::
  "DiscordCommunityInput \<Rightarrow> string \<Rightarrow> string \<Rightarrow> int list \<Rightarrow> DiscordCommunityInput" where
  "votes_by d pollId user [] = d"
| "votes_by d pollId user (i # indices) =
     votes_by (snd (voteOnPoll d pollId i user)) pollId user indices"

definition no_vote :: "PollOption list \<Rightarrow> bool" where
  "no_vote opts \<longleftrightarrow> (\<forall>opt \<in> set opts. votes opt = 0 \<and> voters opt = [])"

definition single_vote :: "string \<Rightarrow> nat \<Rightarrow> PollOption list \<Rightarrow> bool" where
  "single_vote user i opts \<longleftrightarrow>
     i < length opts
     \<and> (\<forall>j < length opts. voters (opts ! j) = (if j = i then [user] else [])
                          \<and> votes (opts ! j) = (if j = i then 1 else 0))"

section \<open>Events and consensus: class CommunityCoordination\<close>

datatype rsvp_status = Attending | Maybe | Declined

record Attendee =
  att_memberId :: string
  att_status :: rsvp_status
  rsvpAt :: int

record CommunityEvent =
  ev_id :: string
  ev_title :: string
  ev_description :: string
  scheduledFor :: int
  ev_duration :: int
  organizer :: string
  attendees :: "Attendee list"
  ev_type :: string
  location :: string
  ev_createdAt :: int

record EventData =
  ed_title :: string
  ed_description :: string
  ed_scheduledFor :: int
  ed_organizer :: string
  ed_duration :: "int option"
  ed_type :: "string option"
  ed_location :: "string option"

datatype vote_kind = Support | Oppose | Abstain

datatype consensus_status = Voting | Approved | Failed

record Ballot =
  b_memberId :: string
  b_timestamp :: int

record Votes =
  support :: "Ballot list"
  oppose :: "Ballot list"
  abstain :: "Ballot list"

record ConsensusItem =
  ci_id :: string
  ci_title :: string
  ci_description :: string
  proposedBy :: string
  ci_createdAt :: int
  votingEnds :: number
  ci_votes :: Votes
  status :: consensus_status
  consensusThreshold :: number

record ConsensusData =
  cd_title :: string
  cd_description :: string
  cd_proposedBy :: string
  cd_votingPeriod :: "number option"
  cd_consensusThreshold :: "number option"

record CommunityCoordination =
  events :: "CommunityEvent list"
  consensusItems :: "ConsensusItem list"

definition new_CommunityCoordination :: CommunityCoordination where
  "new_CommunityCoordination = \<lparr>events = [], consensusItems = []\<rparr>"

text \<open>
  \<^verbatim>\<open>xs.find(P)\<close> is \<open>find P xs\<close>. The object it returns is mutated in place, which
  replaces the first element that satisfies \<open>P\<close>.
\<close>

primrec update_first :: "('a \<Rightarrow> bool) \<Rightarrow> 'a \<Rightarrow> 'a list \<Rightarrow> 'a list" where
  "update_first P y [] = []"
| "update_first P y (x # xs) = (if P x then y # xs else x # update_first P y xs)"

definition scheduleEvent ::
  "CommunityCoordination \<Rightarrow> EventData \<Rightarrow> int \<Rightarrow> int \<Rightarrow> string \<times> CommunityCoordination" where
  "scheduleEvent c eventData tId tCreated =
     (let event =
            \<lparr>ev_id = ''event_'' @ toString tId,
             ev_title = ed_title eventData,
             ev_description = ed_description eventData,
             scheduledFor = ed_scheduledFor eventData,
             ev_duration = (case ed_duration eventData of None \<Rightarrow> 3600000
                            | Some dur \<Rightarrow> if dur = 0 then 3600000 else dur),
             organizer = ed_organizer eventData,
             attendees = [],
             ev_type = (case ed_type eventData of None \<Rightarrow> ''general''
                        | Some t \<Rightarrow> if t = [] then ''general'' else t),
             location = (case ed_location eventData of None \<Rightarrow> ''virtual''
                         | Some l \<Rightarrow> if l = [] then ''virtual'' else l),
             ev_createdAt = tCreated\<rparr>
      in (ev_id event, c\<lparr>events := events c @ [event]\<rparr>))"

text \<open>
  \<^verbatim>\<open>rsvpToEvent(eventId, memberId, status = 'attending')\<close>; the argument \<open>rsvp\<close> is
  \<open>None\<close> when the caller leaves the status out.
\<close>

definition rsvpToEvent ::
  "CommunityCoordination \<Rightarrow> string \<Rightarrow> string \<Rightarrow> rsvp_status option \<Rightarrow> int
     \<Rightarrow> bool \<times> CommunityCoordination" where
  "rsvpToEvent c eventId memberId rsvp now =
     (case find (\<lambda>e. ev_id e = eventId) (events c) of
        None \<Rightarrow> (False, c)
      | Some event \<Rightarrow>
          let kept = filter (\<lambda>a. att_memberId a \<noteq> memberId) (attendees event);
              entry = \<lparr>att_memberId = memberId,
                       att_status = (case rsvp of None \<Rightarrow> Attending | Some s \<Rightarrow> s),
                       rsvpAt = now\<rparr>;
              event' = event\<lparr>attendees := kept @ [entry]\<rparr>
          in (True, c\<lparr>events := update_first (\<lambda>e. ev_id e = eventId) event' (events c)\<rparr>))"

text \<open>
  \<^verbatim>\<open>createConsensusItem(itemData)\<close>. The literal \<^verbatim>\<open>0.67\<close> is the double nearest to
  \<open>67 / 100\<close>; \<^verbatim>\<open>votingEnds\<close> is the double sum of the clock value and the period.
\<close>

definition createConsensusItem ::
  "CommunityCoordination \<Rightarrow> ConsensusData \<Rightarrow> int \<Rightarrow> int \<Rightarrow> int
     \<Rightarrow> string \<times> CommunityCoordination" where
  "createConsensusItem c itemData tId tCreated tEnds =
     (let item =
            \<lparr>ci_id = ''consensus_'' @ toString tId,
             ci_title = cd_title itemData,
             ci_description = cd_description itemData,
             proposedBy = cd_proposedBy itemData,
             ci_createdAt = tCreated,
             votingEnds =
               number_add (time_number tEnds)
                 (case cd_votingPeriod itemData of None \<Rightarrow> Num 604800000
                  | Some vp \<Rightarrow> if number_truthy vp then vp else Num 604800000),
             ci_votes = \<lparr>support = [], oppose = [], abstain = []\<rparr>,
             status = Voting,
             consensusThreshold =
               (case cd_consensusThreshold itemData of None \<Rightarrow> fl (67 / 100)
                | Some t \<Rightarrow> if number_truthy t then t else fl (67 / 100))\<rparr>
      in (ci_id item, c\<lparr>consensusItems := consensusItems c @ [item]\<rparr>))"

text \<open>
  \<^verbatim>\<open>checkConsensus(item)\<close>: the total is the \<^verbatim>\<open>reduce\<close> over \<^verbatim>\<open>Object.values(item.votes)\<close>,
  that is over support, oppose and abstain in this order. The quotient and the two
  comparisons are those of doubles.
\<close>

definition checkConsensus :: "ConsensusItem \<Rightarrow> int \<Rightarrow> ConsensusItem" where
  "checkConsensus item now =
     (let totalVotes = foldl (\<lambda>sum vs. sum + length vs) 0
                         [support (ci_votes item), oppose (ci_votes item),
                          abstain (ci_votes item)];
          supportVotes = length (support (ci_votes item))
      in if totalVotes > 0
         then let supportRatio = divide_lengths supportVotes totalVotes
              in if number_ge supportRatio (consensusThreshold item)
                 then item\<lparr>status := Approved\<rparr>
                 else if number_gt (time_number now) (votingEnds item)
                 then item\<lparr>status := Failed\<rparr>
                 else item
         else item)"

text \<open>The body of the \<^verbatim>\<open>forEach\<close> in \<^verbatim>\<open>voteOnConsensus\<close>, for one of the three arrays.\<close>

definition removeBallot :: "string \<Rightarrow> Ballot list \<Rightarrow> Ballot list" where
  "removeBallot memberId voteArray =
     (let index = findIndex (\<lambda>v. b_memberId v = memberId) voteArray
      in if index \<noteq> - 1 then splice1 index voteArray else voteArray)"

text \<open>
  \<^verbatim>\<open>voteOnConsensus(itemId, memberId, vote)\<close>: one clock read for the ballot, one in
  \<^verbatim>\<open>checkConsensus\<close>. \<^verbatim>\<open>item.votes[vote]\<close> is an array for each of the three kinds, so the
  ballot is always pushed.
\<close>

definition voteOnConsensus ::
  "CommunityCoordination \<Rightarrow> string \<Rightarrow> string \<Rightarrow> vote_kind \<Rightarrow> int \<Rightarrow> int
     \<Rightarrow> bool \<times> CommunityCoordination" where
  "voteOnConsensus c itemId memberId vote tVote tCheck =
     (case find (\<lambda>i. ci_id i = itemId) (consensusItems c) of
        None \<Rightarrow> (False, c)
      | Some item \<Rightarrow>
          if status item \<noteq> Voting then (False, c)
          else
            let v0 = ci_votes item;
                v1 = \<lparr>support = removeBallot memberId (support v0),
                      oppose = removeBallot memberId (oppose v0),
                      abstain = removeBallot memberId (abstain v0)\<rparr>;
                ballot = \<lparr>b_memberId = memberId, b_timestamp = tVote\<rparr>;
                v2 = (case vote of
                        Support \<Rightarrow> v1\<lparr>support := support v1 @ [ballot]\<rparr>
                      | Oppose \<Rightarrow> v1\<lparr>oppose := oppose v1 @ [ballot]\<rparr>
                      | Abstain \<Rightarrow> v1\<lparr>abstain := abstain v1 @ [ballot]\<rparr>);
                item' = checkConsensus (item\<lparr>ci_votes := v2\<rparr>) tCheck
            in (True, c\<lparr>consensusItems :=
                           update_first (\<lambda>i. ci_id i = itemId) item' (consensusItems c)\<rparr>))"


definition getActiveConsensusItems :: "CommunityCoordination \<Rightarrow> ConsensusItem list" where
  "getActiveConsensusItems c = filter (\<lambda>item. status item = Voting) (consensusItems c)"

text \<open>The operations that change a \<^verbatim>\<open>CommunityCoordination\<close>, and a history of them.\<close>

datatype coord_op =
    ScheduleEvent EventData int int
  | RsvpToEvent string string "rsvp_status option" int
  | CreateConsensusItem ConsensusData int int int
  | VoteOnConsensus string string vote_kind int int

fun coord_step :: "coord_op \<Rightarrow> CommunityCoordination \<Rightarrow> CommunityCoordination" where
  "coord_step (ScheduleEvent eventData tId tCreated) c =
     snd (scheduleEvent c eventData tId tCreated)"
| "coord_step (RsvpToEvent eventId memberId st now) c =
     snd (rsvpToEvent c eventId memberId st now)"
| "coord_step (CreateConsensusItem itemData tId tCreated tEnds) c =
     snd (createConsensusItem c itemData tId tCreated tEnds)"
| "coord_step (VoteOnConsensus itemId memberId vote tVote tCheck) c =
     snd (voteOnConsensus c itemId memberId vote tVote tCheck)"

definition coord_run :: "coord_op list \<Rightarrow> CommunityCoordination \<Rightarrow> CommunityCoordination" where
  "coord_run ops c = fold coord_step ops c"

text \<open>
  A member's successive RSVPs to one event: each call gives the status argument and the
  clock value it reads.
\<close>

fun rsvp_all ::
  "CommunityCoordination \<Rightarrow> string \<Rightarrow> string \<Rightarrow> (rsvp_status option \<times> int) list
     \<Rightarrow> CommunityCoordination" where
  "rsvp_all c eventId memberId [] = c"
| "rsvp_all c eventId memberId (call # calls) =
     rsvp_all (snd (rsvpToEvent c eventId memberId (fst call) (snd call))) eventId memberId calls"

section \<open>Consciousness store: class ConsciousnessPersistence\<close>

datatype phase = Seed | Threshold | Bloom | Memory

datatype direction = Clockwise | Counterclockwise

datatype participationLevel = Observer | Active | Contributor

record Spiral =
  depth :: rat
  spiral_direction :: direction
  resonance :: rat

text \<open>
  The \<^verbatim>\<open>community\<close> object. The interface declares its properties as a level name, a
  number and a number or \<^verbatim>\<open>null\<close>; the object in the store holds whatever an import or a
  saved state has put there, so each property is a value of any type, \<open>JUndefined\<close> when
  the property is absent. Properties with other names are never read and are left out.
\<close>

record Community =
  participationLevel :: jsval
  contributionCount :: jsval
  lastContribution :: jsval

text \<open>The string of a level.\<close>

fun level_name :: "participationLevel \<Rightarrow> string" where
  "level_name Observer = ''observer''"
| "level_name Active = ''active''"
| "level_name Contributor = ''contributor''"

record Preferences =
  notifications :: bool
  autoSync :: bool
  platform :: string

text \<open>
  The state object. Its six declared properties are those of the interface
  \<^verbatim>\<open>ConsciousnessState\<close>. The \<^verbatim>\<open>community\<close> property, the one whose parts the source reads
  and computes with, holds an object or any other value. The last two properties are not
  declared: the object acquires them when an imported payload is spread into it, \<open>None\<close>
  standing for an absent property.
\<close>

record ConsciousnessState =
  userId :: string
  currentPhase :: phase
  lastActive :: int
  spiral :: Spiral
  community :: "Community js_any"
  preferences :: Preferences
  extra_exportedAt :: "int option"
  extra_version :: "jsval option"

text \<open>\<^verbatim>\<open>Partial<ConsciousnessState['community']>\<close>: each property present or absent.\<close>

record PartialCommunity =
  pc_participationLevel :: "jsval option"
  pc_contributionCount :: "jsval option"
  pc_lastContribution :: "jsval option"

text \<open>
  The object given to \<^verbatim>\<open>saveState\<close>, and the payload of an export or import: the properties
  of the state, each present or absent, with \<^verbatim>\<open>exportedAt\<close> and \<^verbatim>\<open>version\<close>. The version is
  the one property the import inspects, so it may hold any value; \<^verbatim>\<open>community\<close> may hold
  any value as well; the others, when present, have their declared types.
\<close>

record PartialState =
  ps_userId :: "string option"
  ps_currentPhase :: "phase option"
  ps_lastActive :: "int option"
  ps_spiral :: "Spiral option"
  ps_community :: "Community js_any option"
  ps_preferences :: "Preferences option"
  ps_exportedAt :: "int option"
  ps_version :: "jsval option"

text \<open>
  The store: the state in memory, and the value held by the key-value storage under
  \<^verbatim>\<open>consciousness_state\<close> (the state that was last written, \<open>None\<close> before any write).
  Listeners are callbacks of the display layer and are left out.
\<close>

record ConsciousnessPersistence =
  currentState :: ConsciousnessState
  stored :: "ConsciousnessState option"

definition getDefaultState :: "int \<Rightarrow> int \<Rightarrow> string \<Rightarrow> ConsciousnessState" where
  "getDefaultState tUser tActive platformOS =
     \<lparr>userId = ''user_'' @ toString tUser,
      currentPhase = Seed,
      lastActive = tActive,
      spiral = \<lparr>depth = 0, spiral_direction = Clockwise, resonance = 1 / 2\<rparr>,
      community = Obj \<lparr>participationLevel = JStr (level_name Observer),
                       contributionCount = JNum (Num 0), lastContribution = JNull\<rparr>,
      preferences = \<lparr>notifications = True, autoSync = True, platform = platformOS\<rparr>,
      extra_exportedAt = None,
      extra_version = None\<rparr>"

text \<open>
  The constructor with its \<^verbatim>\<open>loadState\<close> completed: the saved state when the storage holds
  one, the default state otherwise.
\<close>

definition new_ConsciousnessPersistence ::
  "int \<Rightarrow> int \<Rightarrow> string \<Rightarrow> ConsciousnessState option \<Rightarrow> ConsciousnessPersistence" where
  "new_ConsciousnessPersistence tUser tActive platformOS saved =
     \<lparr>currentState = (case saved of None \<Rightarrow> getDefaultState tUser tActive platformOS
                       | Some s \<Rightarrow> s),
      stored = saved\<rparr>"

text \<open>The object spread \<^verbatim>\<open>{ ...a, ...b }\<close>: a property present in \<open>b\<close> wins.\<close>

definition spread_state :: "ConsciousnessState \<Rightarrow> PartialState \<Rightarrow> ConsciousnessState" where
  "spread_state a b =
     \<lparr>userId = (case ps_userId b of None \<Rightarrow> userId a | Some v \<Rightarrow> v),
      currentPhase = (case ps_currentPhase b of None \<Rightarrow> currentPhase a | Some v \<Rightarrow> v),
      lastActive = (case ps_lastActive b of None \<Rightarrow> lastActive a | Some v \<Rightarrow> v),
      spiral = (case ps_spiral b of None \<Rightarrow> spiral a | Some v \<Rightarrow> v),
      community = (case ps_community b of None \<Rightarrow> community a | Some v \<Rightarrow> v),
      preferences = (case ps_preferences b of None \<Rightarrow> preferences a | Some v \<Rightarrow> v),
      extra_exportedAt = (case ps_exportedAt b of None \<Rightarrow> extra_exportedAt a
                          | Some v \<Rightarrow> Some v),
      extra_version = (case ps_version b of None \<Rightarrow> extra_version a | Some v \<Rightarrow> Some v)\<rparr>"

text \<open>
  The properties that spreading a value of any type contributes: those of an object, none
  for a primitive (the index properties that a string contributes are never read).
\<close>

fun own_properties :: "Community js_any \<Rightarrow> Community" where
  "own_properties (Obj c) = c"
| "own_properties (Prim _) =
     \<lparr>participationLevel = JUndefined, contributionCount = JUndefined,
      lastContribution = JUndefined\<rparr>"

definition spread_community :: "Community js_any \<Rightarrow> PartialCommunity \<Rightarrow> Community" where
  "spread_community a b =
     \<lparr>participationLevel = (case pc_participationLevel b of
                              None \<Rightarrow> participationLevel (own_properties a) | Some v \<Rightarrow> v),
      contributionCount = (case pc_contributionCount b of
                             None \<Rightarrow> contributionCount (own_properties a) | Some v \<Rightarrow> v),
      lastContribution = (case pc_lastContribution b of
                            None \<Rightarrow> lastContribution (own_properties a) | Some v \<Rightarrow> v)\<rparr>"

definition no_properties :: PartialState where
  "no_properties =
     \<lparr>ps_userId = None, ps_currentPhase = None, ps_lastActive = None, ps_spiral = None,
      ps_community = None, ps_preferences = None, ps_exportedAt = None, ps_version = None\<rparr>"

text \<open>
  \<^verbatim>\<open>saveState(state)\<close>: the merge is assigned before the first \<^verbatim>\<open>await\<close>, so it is in place
  when the caller continues; the write to the storage may fail (\<open>writeOk\<close> false), which
  the source catches and logs.
\<close>

definition saveState ::
  "ConsciousnessPersistence \<Rightarrow> PartialState \<Rightarrow> bool \<Rightarrow> ConsciousnessPersistence" where
  "saveState p state writeOk =
     (let merged = spread_state (currentState p) state
      in p\<lparr>currentState := merged, stored := (if writeOk then Some merged else stored p)\<rparr>)"

definition updateCommunityParticipation ::
  "ConsciousnessPersistence \<Rightarrow> PartialCommunity \<Rightarrow> int \<Rightarrow> bool \<Rightarrow> ConsciousnessPersistence" where
  "updateCommunityParticipation p participationData tActive writeOk =
     saveState p
       (no_properties
          \<lparr>ps_community :=
             Some (Obj (spread_community (community (currentState p)) participationData)),
           ps_lastActive := Some tActive\<rparr>)
       writeOk"

definition updatePhase ::
  "ConsciousnessPersistence \<Rightarrow> phase \<Rightarrow> int \<Rightarrow> bool \<Rightarrow> ConsciousnessPersistence" where
  "updatePhase p newPhase tActive writeOk =
     saveState p (no_properties\<lparr>ps_currentPhase := Some newPhase, ps_lastActive := Some tActive\<rparr>)
       writeOk"

definition getState :: "ConsciousnessPersistence \<Rightarrow> ConsciousnessState" where
  "getState p = currentState p"

text \<open>
  \<^verbatim>\<open>exportState()\<close>: \<^verbatim>\<open>{ ...this.currentState, exportedAt: Date.now(), version: '1.0' }\<close>,
  as the property bag that \<^verbatim>\<open>importState\<close> receives.
\<close>

definition exportState :: "ConsciousnessPersistence \<Rightarrow> int \<Rightarrow> PartialState" where
  "exportState p now =
     \<lparr>ps_userId = Some (userId (currentState p)),
      ps_currentPhase = Some (currentPhase (currentState p)),
      ps_lastActive = Some (lastActive (currentState p)),
      ps_spiral = Some (spiral (currentState p)),
      ps_community = Some (community (currentState p)),
      ps_preferences = Some (preferences (currentState p)),
      ps_exportedAt = Some now,
      ps_version = Some (JStr ''1.0'')\<rparr>"

text \<open>
  \<^verbatim>\<open>importState(importedState: any)\<close>. Reading \<^verbatim>\<open>.version\<close> of \<^verbatim>\<open>undefined\<close> or \<^verbatim>\<open>null\<close> raises;
  of any other primitive it gives \<^verbatim>\<open>undefined\<close>, which is not \<^verbatim>\<open>'1.0'\<close>.
\<close>

definition importState ::
  "ConsciousnessPersistence \<Rightarrow> PartialState js_any \<Rightarrow> bool
     \<Rightarrow> (js_error + bool) \<times> ConsciousnessPersistence" where
  "importState p importedState writeOk =
     (case importedState of
        Prim JUndefined \<Rightarrow> (Inl TypeError, p)
      | Prim JNull \<Rightarrow> (Inl TypeError, p)
      | Prim _ \<Rightarrow> (Inr False, p)
      | Obj data \<Rightarrow>
          if ps_version data = Some (JStr ''1.0'') then (Inr True, saveState p data writeOk)
          else (Inr False, p))"

text \<open>The \<^verbatim>\<open>version\<close> property of a value, \<open>None\<close> where it has none.\<close>

fun version_of :: "PartialState js_any \<Rightarrow> jsval option" where
  "version_of (Obj data) = ps_version data"
| "version_of (Prim _) = None"

fun nullish :: "'a js_any \<Rightarrow> bool" where
  "nullish (Prim JUndefined) = True"
| "nullish (Prim JNull) = True"
| "nullish _ = False"

section \<open>Facade: class CommunityCoordinationSystem\<close>

record CommunityCoordinationSystem =
  consciousness :: ConsciousnessPersistence
  discord :: DiscordCommunityInput
  coordination :: CommunityCoordination

text \<open>
  \<^verbatim>\<open>addCommunityInput(channelId, content, author)\<close>: \<^verbatim>\<open>addInput\<close> with its clock reads; then
  \<^verbatim>\<open>getState().community.contributionCount + 1\<close>, where reading a property of a \<^verbatim>\<open>community\<close>
  that is \<^verbatim>\<open>undefined\<close> or \<^verbatim>\<open>null\<close> raises, with the input already recorded, and of any
  other primitive gives \<^verbatim>\<open>undefined\<close>; then the clock read for \<^verbatim>\<open>lastContribution\<close>, and
  the one for \<^verbatim>\<open>lastActive\<close> in \<^verbatim>\<open>updateCommunityParticipation\<close>.
\<close>

definition addCommunityInput ::
  "CommunityCoordinationSystem \<Rightarrow> string \<Rightarrow> string \<Rightarrow> string \<Rightarrow> int \<Rightarrow> string \<Rightarrow> int \<Rightarrow> int
     \<Rightarrow> int \<Rightarrow> bool \<Rightarrow> (js_error + string) \<times> CommunityCoordinationSystem" where
  "addCommunityInput sys channelId content author tId rnd tStamp tContribution tActive writeOk =
     (let (inputId, d') =
            addInput (discord sys) channelId
              \<lparr>arg_content = Some content, arg_author = Some author, arg_type = None\<rparr>
              tId rnd tStamp;
          sys1 = sys\<lparr>discord := d'\<rparr>
      in case community (getState (consciousness sys)) of
           Prim JUndefined \<Rightarrow> (Inl TypeError, sys1)
         | Prim JNull \<Rightarrow> (Inl TypeError, sys1)
         | held \<Rightarrow>
             let p' = updateCommunityParticipation (consciousness sys)
                        \<lparr>pc_participationLevel = Some (JStr ''active''),
                         pc_contributionCount =
                           Some (plus_one (contributionCount (own_properties held))),
                         pc_lastContribution = Some (JNum (time_number tContribution))\<rparr>
                        tActive writeOk
             in (Inr inputId, sys1\<lparr>consciousness := p'\<rparr>))"

text \<open>The sync payload: \<^verbatim>\<open>{ consciousness, timestamp, platform }\<close>, each property of type \<^verbatim>\<open>any\<close>.\<close>

record SyncData =
  sd_consciousness :: "PartialState js_any"
  sd_timestamp :: jsval
  sd_platform :: jsval

definition exportForSync :: "CommunityCoordinationSystem \<Rightarrow> int \<Rightarrow> int \<Rightarrow> string \<Rightarrow> SyncData" where
  "exportForSync sys tExport tStamp platformOS =
     \<lparr>sd_consciousness = Obj (exportState (consciousness sys) tExport),
      sd_timestamp = JNum (time_number tStamp),
      sd_platform = JStr platformOS\<rparr>"

text \<open>
  \<^verbatim>\<open>importFromSync(syncData: any)\<close>. An absent \<^verbatim>\<open>consciousness\<close> property reads as
  \<^verbatim>\<open>undefined\<close>, that is \<open>Prim JUndefined\<close>.
\<close>

definition importFromSync ::
  "CommunityCoordinationSystem \<Rightarrow> SyncData js_any \<Rightarrow> bool
     \<Rightarrow> (js_error + bool) \<times> CommunityCoordinationSystem" where
  "importFromSync sys syncData writeOk =
     (case syncData of
        Prim JUndefined \<Rightarrow> (Inl TypeError, sys)
      | Prim JNull \<Rightarrow> (Inl TypeError, sys)
      | Prim _ \<Rightarrow> (Inr False, sys)
      | Obj sd \<Rightarrow>
          if truthy (sd_consciousness sd)
          then let (result, p') = importState (consciousness sys) (sd_consciousness sd) writeOk
               in (result, sys\<lparr>consciousness := p'\<rparr>)
          else (Inr False, sys))"

text \<open>
  The empty object \<^verbatim>\<open>{}\<close> as a sync payload: every property reads as \<^verbatim>\<open>undefined\<close>.
\<close>

definition empty_object :: "SyncData js_any" where
  "empty_object =
     Obj \<lparr>sd_consciousness = Prim JUndefined, sd_timestamp = JUndefined,
          sd_platform = JUndefined\<rparr>"

text \<open>
  The position of a participation level in the order in which the interface lists them:
  \<^verbatim>\<open>'observer' | 'active' | 'contributor'\<close>.
\<close>

fun level_rank :: "participationLevel \<Rightarrow> nat" where
  "level_rank Observer = 0"
| "level_rank Active = 1"
| "level_rank Contributor = 2"

section \<open>Concrete scenarios\<close>

text \<open>
  A poll with the options A and B, created on a new ledger at clock value 1000; its id is
  \<^verbatim>\<open>poll_1000\<close>.
\<close>

definition two_option_poll :: "string \<times> DiscordCommunityInput" where
  "two_option_poll =
     createPoll new_DiscordCommunityInput ''the-keep''
       \<lparr>pd_question = ''Q'', pd_options = [''A'', ''B''], pd_author = ''c'', pd_duration = None\<rparr>
       1000 1000 1000 1001 ''0.k3j9x2m5p8q'' 1001"

definition poll_of :: "DiscordCommunityInput \<Rightarrow> string \<Rightarrow> Poll" where
  "poll_of d pollId = the (map_of (polls d) pollId)"

text \<open>The ledger after user u1 has voted for option 0 of that poll.\<close>

definition u1_voted_A :: DiscordCommunityInput where
  "u1_voted_A = snd (voteOnPoll (snd two_option_poll) ''poll_1000'' 0 ''u1'')"

text \<open>A new ledger after \<^verbatim>\<open>addInput("sanctuary", {content: "hi", author: "u1"})\<close>.\<close>

definition hi_in_sanctuary :: DiscordCommunityInput where
  "hi_in_sanctuary =
     snd (addInput new_DiscordCommunityInput ''sanctuary''
            \<lparr>arg_content = Some ''hi'', arg_author = Some ''u1'', arg_type = None\<rparr>
            1000 ''0.k3j9x2m5p8q'' 1000)"

definition channel_of :: "DiscordCommunityInput \<Rightarrow> string \<Rightarrow> Channel" where
  "channel_of d channelId = the (map_of (channels d) channelId)"


definition item_of :: "CommunityCoordination \<Rightarrow> string \<Rightarrow> ConsensusItem" where
  "item_of c itemId = the (find (\<lambda>i. ci_id i = itemId) (consensusItems c))"


text \<open>
  An item with the threshold \<^verbatim>\<open>0.2\<close>, the double nearest to \<open>2 / 10\<close>, and its coordinator
  after m2 to m5 have voted against and then m1 in support: one ballot of five supports.
\<close>

definition fifth_item :: "string \<times> CommunityCoordination" where
  "fifth_item =
     createConsensusItem new_CommunityCoordination
       \<lparr>cd_title = ''Quorum'', cd_description = ''One in five'',
        cd_proposedBy = ''Eve'', cd_votingPeriod = None,
        cd_consensusThreshold = Some (fl (2 / 10))\<rparr> 1000 1000 1000"

definition one_of_five :: CommunityCoordination where
  "one_of_five =
     coord_run
       [VoteOnConsensus ''consensus_1000'' ''m2'' Oppose 2000 2001,
        VoteOnConsensus ''consensus_1000'' ''m3'' Oppose 3000 3001,
        VoteOnConsensus ''consensus_1000'' ''m4'' Oppose 4000 4001,
        VoteOnConsensus ''consensus_1000'' ''m5'' Oppose 5000 5001,
        VoteOnConsensus ''consensus_1000'' ''m1'' Support 6000 6001]
       (snd fifth_item)"

text \<open>An event scheduled on a new coordinator at clock value 1000; its id is \<^verbatim>\<open>event_1000\<close>.\<close>

definition spiral_session :: "string \<times> CommunityCoordination" where
  "spiral_session =
     scheduleEvent new_CommunityCoordination
       \<lparr>ed_title = ''Weekly Spiral Session'', ed_description = ''Community meditation'',
        ed_scheduledFor = 86401000, ed_organizer = ''Dana'', ed_duration = None,
        ed_type = Some ''meditation'', ed_location = None\<rparr> 1000 1000"

text \<open>
  A store created at clock value 1000 on a device with nothing saved, a system that holds
  it, and the same system after
  \<^verbatim>\<open>consciousness.updateCommunityParticipation({participationLevel: 'contributor'})\<close>.
\<close>

definition fresh_store :: ConsciousnessPersistence where
  "fresh_store = new_ConsciousnessPersistence 1000 1001 ''ios'' None"

definition demo_system :: CommunityCoordinationSystem where
  "demo_system =
     \<lparr>consciousness = fresh_store, discord = new_DiscordCommunityInput,
      coordination = new_CommunityCoordination\<rparr>"

definition contributor_system :: CommunityCoordinationSystem where
  "contributor_system =
     demo_system
       \<lparr>consciousness :=
          updateCommunityParticipation fresh_store
            \<lparr>pc_participationLevel = Some (JStr ''contributor''), pc_contributionCount = None,
             pc_lastContribution = None\<rparr> 1500 True\<rparr>"

text \<open>
  The same system with a contribution count of \<open>2 ^ 53\<close>, after
  \<^verbatim>\<open>consciousness.updateCommunityParticipation({contributionCount: 9007199254740992})\<close>, and
  with a \<^verbatim>\<open>community\<close> of \<^verbatim>\<open>null\<close>, after
  \<^verbatim>\<open>importFromSync({consciousness: {version: '1.0', community: null}})\<close>.
\<close>

definition big_count_system :: CommunityCoordinationSystem where
  "big_count_system =
     demo_system
       \<lparr>consciousness :=
          updateCommunityParticipation fresh_store
            \<lparr>pc_participationLevel = None, pc_contributionCount = Some (JNum (Num (2 ^ 53))),
             pc_lastContribution = None\<rparr> 1500 True\<rparr>"

definition null_community_system :: CommunityCoordinationSystem where
  "null_community_system =
     snd (importFromSync demo_system
            (Obj \<lparr>sd_consciousness =
                    Obj (no_properties\<lparr>ps_community := Some (Prim JNull),
                                         ps_version := Some (JStr ''1.0'')\<rparr>),
                  sd_timestamp = JUndefined, sd_platform = JUndefined\<rparr>)
            True)"

text \<open>
  The participation level that the state shows, when its \<^verbatim>\<open>community\<close> is an object whose
  level is one of the three names, and the contribution count that it shows.
\<close>

definition level_value :: "jsval \<Rightarrow> participationLevel option" where
  "level_value v =
     (if v = JStr ''observer'' then Some Observer
      else if v = JStr ''active'' then Some Active
      else if v = JStr ''contributor'' then Some Contributor
      else None)"

definition level_of :: "CommunityCoordinationSystem \<Rightarrow> participationLevel option" where
  "level_of sys =
     (case community (getState (consciousness sys)) of
        Obj c \<Rightarrow> level_value (participationLevel c)
      | Prim _ \<Rightarrow> None)"

definition count_of :: "CommunityCoordinationSystem \<Rightarrow> jsval" where
  "count_of sys = contributionCount (own_properties (community (getState (consciousness sys))))"

text \<open>A store created on another device, and a payload of another version.\<close>

definition other_device :: ConsciousnessPersistence where
  "other_device = new_ConsciousnessPersistence 5000 5001 ''android'' None"

definition stale_payload :: "PartialState js_any" where
  "stale_payload = Obj (no_properties\<lparr>ps_currentPhase := Some Bloom, ps_version := Some (JStr ''2.0'')\<rparr>)"

section \<open>Properties of the JavaScript library functions\<close>

text \<open>
  Integers of magnitude up to \<open>2 ^ 53\<close> are doubles: rounding leaves them as they are.
\<close>

lemma pow2_pos: "0 < pow2 e"
  by (simp add: pow2_def)

lemma pow2_nat: "pow2 (int n) = 2 ^ n"
  by (simp add: pow2_def)

lemma bitlen_bounds:
  "0 < a \<Longrightarrow> 0 < bitlen a \<and> 2 ^ nat (bitlen a - 1) \<le> a \<and> a < 2 ^ nat (bitlen a)"
proof (induction a rule: bitlen.induct)
  case (1 a)
  show ?case
  proof (cases "a div 2 \<le> 0")
    case True
    with "1.prems" have "a = 1" by linarith
    then show ?thesis by (simp add: bitlen.simps[of 1] bitlen.simps[of 0])
  next
    case False
    then have pos: "0 < a div 2" by simp
    from "1.IH"[OF _ pos] "1.prems"
    have ih: "0 < bitlen (a div 2)" "2 ^ nat (bitlen (a div 2) - 1) \<le> a div 2"
      "a div 2 < 2 ^ nat (bitlen (a div 2))"
      by auto
    have b: "bitlen a = 1 + bitlen (a div 2)"
      using "1.prems" by (simp add: bitlen.simps[of a])
    have n1: "nat (bitlen a - 1) = Suc (nat (bitlen (a div 2) - 1))"
      using ih(1) b by linarith
    have n2: "nat (bitlen a) = Suc (nat (bitlen (a div 2)))"
      using ih(1) b by linarith
    have "2 * 2 ^ nat (bitlen (a div 2) - 1) \<le> a"
      using ih(2) by linarith
    then have lo: "2 ^ nat (bitlen a - 1) \<le> a"
      unfolding n1 by simp
    have "a < 2 * 2 ^ nat (bitlen (a div 2))"
      using ih(3) by linarith
    then have hi: "a < 2 ^ nat (bitlen a)"
      unfolding n2 by simp
    have "0 < bitlen a" using ih(1) b by simp
    then show ?thesis using lo hi by blast
  qed
qed

lemma ilog2_int:
  assumes "0 < k"
  shows "ilog2 (of_int k) = bitlen k - 1" and "pow2 (ilog2 (of_int k)) \<le> of_int k"
    and "of_int k < pow2 (ilog2 (of_int k) + 1)"
proof -
  from bitlen_bounds[OF assms]
  have bl: "0 < bitlen k" "2 ^ nat (bitlen k - 1) \<le> k" "k < 2 ^ nat (bitlen k)" by auto
  have one: "bitlen 1 = 1" by (simp add: bitlen.simps[of 1] bitlen.simps[of 0])
  have "pow2 (bitlen k - 1) = of_int (2 ^ nat (bitlen k - 1))"
    using bl(1) by (simp add: pow2_def)
  also have "\<dots> \<le> of_int k" using bl(2) by (simp only: of_int_le_iff)
  finally have le: "pow2 (bitlen k - 1) \<le> of_int k" .
  then show eq: "ilog2 (of_int k) = bitlen k - 1"
    by (simp add: ilog2_def Let_def one)
  show "pow2 (ilog2 (of_int k)) \<le> of_int k" using le eq by simp
  have "(of_int k :: rat) < of_int (2 ^ nat (bitlen k))"
    using bl(3) by (simp only: of_int_less_iff)
  also have "\<dots> = pow2 (bitlen k)" using bl(1) by (simp add: pow2_def)
  finally show "of_int k < pow2 (ilog2 (of_int k) + 1)" using eq by simp
qed

lemma round_half_even_int: "round_half_even (of_int j) = j"
  by (simp add: round_half_even_def)

lemma fl_int:
  assumes "\<bar>k\<bar> \<le> 2 ^ 53"
  shows "fl (of_int k) = Num (of_int k)"
proof (cases "k = 0")
  case True
  then show ?thesis by (simp add: fl_def)
next
  case False
  define a where "a = \<bar>k\<bar>"
  have apos: "0 < a" and ale: "a \<le> 2 ^ 53" using False assms by (simp_all add: a_def)
  have absk: "\<bar>of_int k :: rat\<bar> = of_int a" by (simp add: a_def)
  define e where "e = ilog2 (of_int a)"
  have lo: "pow2 e \<le> of_int a" and hi: "of_int a < pow2 (e + 1)"
    using ilog2_int(2,3)[OF apos] by (simp_all add: e_def)
  have e0: "0 \<le> e"
    using ilog2_int(1)[OF apos] bitlen_bounds[OF apos] by (simp add: e_def)
  have e53: "e \<le> 53"
  proof (rule ccontr)
    assume "\<not> e \<le> 53"
    then have "54 \<le> e" by simp
    then have "(2::rat) ^ 54 \<le> 2 ^ nat e"
      by (intro power_increasing) auto
    also have "\<dots> = pow2 e" using e0 by (simp add: pow2_def)
    also have "\<dots> \<le> of_int a" by (rule lo)
    also have "\<dots> \<le> of_int (2 ^ 53)" using ale by (simp only: of_int_le_iff)
    finally show False by simp
  qed
  have mx: "max e (- 1022) = e" using e0 by simp
  obtain j :: int where j: "of_int a / pow2 (e - 52) = (of_int j :: rat)"
  proof (cases "e \<le> 52")
    case True
    then have "pow2 (e - 52) = 1 / 2 ^ nat (52 - e)" by (simp add: pow2_def)
    then have "of_int a / pow2 (e - 52) = (of_int (a * 2 ^ nat (52 - e)) :: rat)" by simp
    then show ?thesis using that by blast
  next
    case False
    with e53 have e: "e = 53" by simp
    then have "(2::rat) ^ 53 \<le> of_int a" using lo by (simp add: pow2_def)
    then have "(of_int (2 ^ 53) :: rat) \<le> of_int a" by simp
    then have "2 ^ 53 \<le> a" by (simp only: of_int_le_iff)
    with ale have "a = 2 ^ 53" by simp
    then have "of_int a / pow2 (e - 52) = (of_int (2 ^ 52) :: rat)" using e by (simp add: pow2_def)
    then show ?thesis using that by blast
  qed
  have scaled: "(of_int j :: rat) * pow2 (e - 52) = of_int a"
    using j pow2_pos[of "e - 52"] by (simp add: field_simps)
  have noover: "\<not> (1024 \<le> e \<or> (e = 1023 \<and> 2 ^ 53 \<le> round_half_even (of_int a / pow2 (e - 52))))"
    using e53 by simp
  have "fl (of_int k) = Num (if 0 < (of_int k :: rat) then of_int a else - of_int a)"
    using False noover scaled
    by (simp add: fl_def Let_def absk e_def[symmetric] mx j round_half_even_int
        del: of_int_abs)
  also have "\<dots> = Num (of_int k)" using False by (auto simp: a_def)
  finally show ?thesis .
qed

text \<open>
  The binary exponent is the right one for every positive rational, and rounding to an
  integer moves a value by at most a half.
\<close>

lemma pow2_powi: "pow2 k = 2 powi k"
  by (simp add: pow2_def power_int_def field_simps)

lemma pow2_diff: "pow2 (i - j) = pow2 i / pow2 j"
  by (simp add: pow2_powi power_int_diff)

lemma bitlen_pow2:
  assumes "0 < c"
  shows "pow2 (bitlen c - 1) \<le> of_int c \<and> of_int c < pow2 (bitlen c)"
proof -
  from bitlen_bounds[OF assms]
  have bl: "0 < bitlen c" "2 ^ nat (bitlen c - 1) \<le> c" "c < 2 ^ nat (bitlen c)" by auto
  have "pow2 (bitlen c - 1) = of_int (2 ^ nat (bitlen c - 1))"
    using bl(1) by (simp add: pow2_def)
  also have "\<dots> \<le> of_int c" using bl(2) by (simp only: of_int_le_iff)
  finally have lo: "pow2 (bitlen c - 1) \<le> of_int c" .
  have "(of_int c :: rat) < of_int (2 ^ nat (bitlen c))"
    using bl(3) by (simp only: of_int_less_iff)
  also have "\<dots> = pow2 (bitlen c)" using bl(1) by (simp add: pow2_def)
  finally show ?thesis using lo by simp
qed

lemma ilog2_bounds:
  assumes "0 < x"
  shows "pow2 (ilog2 x) \<le> x \<and> x < pow2 (ilog2 x + 1)"
proof -
  obtain a b where q: "quotient_of x = (a, b)" by (cases "quotient_of x")
  have bpos: "0 < b" using q by (rule quotient_of_denom_pos)
  have x: "x = of_int a / of_int b" using q by (rule quotient_of_div)
  have apos: "0 < a"
  proof (rule ccontr)
    assume "\<not> 0 < a"
    then have "(of_int a :: rat) \<le> 0" by simp
    then have "x \<le> 0" using bpos by (simp add: x divide_nonpos_pos)
    then show False using assms by simp
  qed
  have a_lo: "pow2 (bitlen a - 1) \<le> of_int a" and a_hi: "of_int a < pow2 (bitlen a)"
    using bitlen_pow2[OF apos] by simp_all
  have b_lo: "pow2 (bitlen b - 1) \<le> of_int b" and b_hi: "of_int b < pow2 (bitlen b)"
    using bitlen_pow2[OF bpos] by simp_all
  have bq: "(0::rat) < of_int b" using bpos by simp
  define d where "d = bitlen a - bitlen b"
  have "x < pow2 (bitlen a) / pow2 (bitlen b - 1)"
  proof -
    have "x < pow2 (bitlen a) / of_int b"
      unfolding x using a_hi bq by (simp add: divide_strict_right_mono)
    also have "\<dots> \<le> pow2 (bitlen a) / pow2 (bitlen b - 1)"
      using b_lo pow2_pos[of "bitlen b - 1"] pow2_pos[of "bitlen a"]
      by (intro divide_left_mono) (simp_all add: bq)
    finally show ?thesis .
  qed
  then have upper: "x < pow2 (d + 1)"
    by (simp add: d_def pow2_diff[symmetric] algebra_simps)
  have "pow2 (bitlen a - 1) / pow2 (bitlen b) < x"
  proof -
    have "pow2 (bitlen a - 1) / pow2 (bitlen b) < pow2 (bitlen a - 1) / of_int b"
      using b_hi bq pow2_pos[of "bitlen a - 1"] by (intro divide_strict_left_mono) simp_all
    also have "\<dots> \<le> x"
      unfolding x using a_lo bq by (simp add: divide_right_mono)
    finally show ?thesis .
  qed
  then have lower: "pow2 (d - 1) < x"
    by (simp add: d_def pow2_diff[symmetric] algebra_simps)
  have il: "ilog2 x = (if pow2 d \<le> x then d else d - 1)"
    by (simp add: ilog2_def q d_def Let_def)
  show ?thesis
  proof (cases "pow2 d \<le> x")
    case True
    then show ?thesis using upper il by simp
  next
    case False
    then show ?thesis using lower il by simp
  qed
qed

lemma round_half_even_near: "\<bar>of_int (round_half_even x) - x\<bar> \<le> 1 / 2"
proof -
  have "of_int \<lfloor>x\<rfloor> \<le> x" and "x < of_int \<lfloor>x\<rfloor> + 1" by linarith+
  then show ?thesis
    by (auto simp: round_half_even_def Let_def abs_le_iff)
qed

text \<open>
  Some doubles: \<^verbatim>\<open>0.67\<close> and \<^verbatim>\<open>0.2\<close> lie above the decimal fractions they are written as, the
  quotient \<^verbatim>\<open>1 / 5\<close> is the double \<^verbatim>\<open>0.2\<close>, and \<open>2 ^ 53 + 1\<close> rounds to \<open>2 ^ 53\<close>.
\<close>

lemma double_067: "fl (67 / 100) = Num (6034823500676465 / 2 ^ 53)"
  by code_simp

lemma double_02: "fl (2 / 10) = Num (3602879701896397 / 2 ^ 54)"
  by code_simp

lemma double_fifth: "divide_lengths 1 5 = fl (2 / 10)"
  by code_simp

lemma double_2_53: "number_add (Num (2 ^ 53)) (Num 1) = Num (2 ^ 53)"
  by code_simp

lemma findIndex_none: "(findIndex P xs = - 1) = (\<forall>x \<in> set xs. \<not> P x)"
  and findIndex_ge: "findIndex P xs \<ge> - 1"
  by (induction xs) (auto simp: Let_def)

lemma splice1_0: "splice1 0 (x # xs) = xs"
  by (simp add: splice1_def)

lemma splice1_Suc: "0 \<le> i \<Longrightarrow> splice1 (i + 1) (x # xs) = x # splice1 i xs"
  by (simp add: splice1_def nat_add_distrib)

lemma splice1_indexOf:
  "indexOf xs x \<noteq> - 1 \<Longrightarrow> splice1 (indexOf xs x) xs = remove1 x xs"
proof (induction xs)
  case Nil
  then show ?case by (simp add: indexOf_def)
next
  case (Cons y ys)
  show ?case
  proof (cases "y = x")
    case True
    then show ?thesis by (simp add: indexOf_def splice1_0)
  next
    case False
    with Cons.prems have ne: "indexOf ys x \<noteq> - 1"
      by (simp add: indexOf_def Let_def split: if_splits)
    moreover have "indexOf ys x \<ge> - 1" by (simp add: indexOf_def findIndex_ge)
    ultimately have ge: "0 \<le> indexOf ys x" by linarith
    have "indexOf (y # ys) x = indexOf ys x + 1"
      using False ne by (simp add: indexOf_def Let_def)
    then show ?thesis using False ge Cons.IH[OF ne] by (simp add: splice1_Suc)
  qed
qed

lemma indexOf_none: "(indexOf xs x = - 1) = (x \<notin> set xs)"
  by (auto simp: indexOf_def findIndex_none)

lemma slice_from_last: "slice_from (- 1) (xs @ [x]) = [x]"
  by (simp add: slice_from_def Let_def)

lemma slice_from_zero: "slice_from 0 xs = xs"
  by (simp add: slice_from_def Let_def)

lemma slice_from_neg:
  assumes "0 < l"
  shows "slice_from (- l) xs = drop (length xs - nat l) xs"
proof -
  have eq: "slice_from (- l) xs = drop (nat (max (int (length xs) - l) 0)) xs"
    using assms unfolding slice_from_def Let_def by simp
  show ?thesis
  proof (cases "l \<le> int (length xs)")
    case True
    then have "nat (max (int (length xs) - l) 0) = length xs - nat l"
      using assms by (simp add: max_def nat_diff_distrib')
    then show ?thesis using eq by simp
  next
    case False
    then have "nat (max (int (length xs) - l) 0) = 0" and "length xs - nat l = 0"
      by (simp_all add: max_def)
    then show ?thesis using eq by simp
  qed
qed

lemma rev_drop_last: "rev (drop (length xs - n) xs) = take n (rev xs)"
proof (cases "n \<le> length xs")
  case True
  then show ?thesis by (simp add: rev_drop)
next
  case False
  then show ?thesis by simp
qed

lemma find_Some_holds: "find P xs = Some x \<Longrightarrow> P x"
  by (induction xs) (auto split: if_splits)


lemma find_update_first_same:
  "find P xs = Some x \<Longrightarrow> P y \<Longrightarrow> find P (update_first P y xs) = Some y"
  by (induction xs) (auto split: if_splits)


lemma update_first_none: "find P xs = None \<Longrightarrow> update_first P y xs = xs"
  by (induction xs) (auto split: if_splits)

section \<open>Properties of the poll engine\<close>

lemma voters_removeVote: "voters (removeVote u opt) = remove1 u (voters opt)"
  by (simp add: removeVote_def Let_def splice1_indexOf indexOf_none remove1_idem)

lemma votes_removeVote:
  "votes (removeVote u opt) = (if u \<in> set (voters opt) then votes opt - 1 else votes opt)"
  by (simp add: removeVote_def Let_def indexOf_none)

lemma removeVote_consistent:
  assumes "option_consistent opt"
  shows "option_consistent (removeVote u opt)" and "u \<notin> set (voters (removeVote u opt))"
proof -
  show "u \<notin> set (voters (removeVote u opt))"
    using assms by (simp add: option_consistent_def voters_removeVote)
  have "int (length (voters opt)) - 1 = int (length (voters opt) - 1)" if "u \<in> set (voters opt)"
    using that by (cases "voters opt") simp_all
  then show "option_consistent (removeVote u opt)"
    using assms
    by (simp add: option_consistent_def voters_removeVote votes_removeVote length_remove1)
qed

lemma set_map_set: "set (map_set k v al) \<subseteq> insert (k, v) (set al)"
  by (induction al) auto

lemma map_of_map_set: "map_of (map_set k v al) = (map_of al)(k \<mapsto> v)"
  by (induction al) auto

lemma polls_consistent_map_set:
  assumes "polls_consistent d" and "\<forall>opt \<in> set (options p). option_consistent opt"
  shows "polls_consistent (d\<lparr>polls := map_set k p (polls d)\<rparr>)"
proof -
  have "\<forall>opt \<in> set (options (snd e)). option_consistent opt"
    if "e \<in> set (map_set k p (polls d))" for e
  proof -
    from that set_map_set[of k p "polls d"] have "e = (k, p) \<or> e \<in> set (polls d)" by blast
    then show ?thesis
    proof
      assume "e = (k, p)"
      then show ?thesis using assms(2) by simp
    next
      assume "e \<in> set (polls d)"
      then show ?thesis using assms(1) by (simp add: polls_consistent_def)
    qed
  qed
  then show ?thesis by (simp add: polls_consistent_def)
qed

lemma polls_addInput: "polls (snd (addInput d ch inp t1 r t2)) = polls d"
  by (simp add: addInput_def Let_def split: option.splits)

lemma addInput_consistent:
  "polls_consistent d \<Longrightarrow> polls_consistent (snd (addInput d ch inp t1 r t2))"
  by (simp add: polls_consistent_def polls_addInput)

lemma createPoll_consistent:
  assumes "polls_consistent d"
  shows "polls_consistent (snd (createPoll d ch pd t1 t2 t3 t4 r t5))"
proof -
  let ?p = "\<lparr>poll_id = ''poll_'' @ toString t1, poll_channelId = ch, question = pd_question pd,
             options = map (\<lambda>option. \<lparr>opt_text = option, votes = 0, voters = []\<rparr>) (pd_options pd),
             createdBy = pd_author pd, poll_createdAt = t2,
             endsAt = t3 + (case pd_duration pd of None \<Rightarrow> 86400000
                               | Some dur \<Rightarrow> if dur = 0 then 86400000 else dur),
             active = True\<rparr>"
  have eq: "polls (snd (createPoll d ch pd t1 t2 t3 t4 r t5)) = map_set (poll_id ?p) ?p (polls d)"
    by (simp add: createPoll_def Let_def polls_addInput)
  have fresh: "\<forall>opt \<in> set (options ?p). option_consistent opt"
    by (auto simp: option_consistent_def)
  have "polls_consistent (d\<lparr>polls := map_set (poll_id ?p) ?p (polls d)\<rparr>)"
    using assms fresh by (rule polls_consistent_map_set)
  then show ?thesis by (simp add: polls_consistent_def eq)
qed

lemma voteOnPoll_consistent:
  assumes "polls_consistent d"
  shows "polls_consistent (snd (voteOnPoll d pid i u))"
proof (cases "map_of (polls d) pid")
  case None
  then show ?thesis using assms by (simp add: voteOnPoll_def)
next
  case (Some poll)
  then have mem: "(pid, poll) \<in> set (polls d)" by (rule map_of_SomeD)
  have old: "\<forall>opt \<in> set (options poll). option_consistent opt"
    using assms mem unfolding polls_consistent_def by (metis snd_conv)
  let ?cleared = "map (removeVote u) (options poll)"
  have cl: "\<forall>opt \<in> set ?cleared. option_consistent opt \<and> u \<notin> set (voters opt)"
    using old removeVote_consistent by auto
  have step: "polls_consistent (d\<lparr>polls := map_set pid (poll\<lparr>options := os\<rparr>) (polls d)\<rparr>)"
    if "\<forall>opt \<in> set os. option_consistent opt" for os
    using assms that by (intro polls_consistent_map_set) simp_all
  show ?thesis
  proof (cases "\<not> active poll \<or> i \<ge> int (length (options poll))")
    case True
    then show ?thesis using assms Some by (auto simp: voteOnPoll_def)
  next
    case inrange: False
    show ?thesis
    proof (cases "i < 0")
      case True
      then show ?thesis using Some inrange step[of ?cleared] cl
        by (simp add: voteOnPoll_def Let_def)
    next
      case False
      let ?t = "?cleared ! nat i"
      let ?new = "?t\<lparr>voters := voters ?t @ [u], votes := votes ?t + 1\<rparr>"
      have lt: "nat i < length ?cleared" using False inrange by auto
      then have "?t \<in> set ?cleared" by (rule nth_mem)
      then have "option_consistent ?new" using cl by (auto simp: option_consistent_def)
      then have "\<forall>opt \<in> set (?cleared[nat i := ?new]). option_consistent opt"
        using cl set_update_subset_insert[of ?cleared "nat i" ?new] by blast
      then show ?thesis using Some inrange False step[of "?cleared[nat i := ?new]"]
        by (simp add: voteOnPoll_def Let_def)
    qed
  qed
qed

lemma discord_step_consistent: "polls_consistent d \<Longrightarrow> polls_consistent (discord_step op d)"
  by (cases op) (simp_all add: addInput_consistent createPoll_consistent voteOnPoll_consistent)

lemma discord_run_consistent: "polls_consistent d \<Longrightarrow> polls_consistent (discord_run ops d)"
  unfolding discord_run_def
  by (induction ops arbitrary: d) (simp_all add: discord_step_consistent)


text \<open>
  C10. After any history of \<^verbatim>\<open>addInput\<close>, \<^verbatim>\<open>createPoll\<close> and \<^verbatim>\<open>voteOnPoll\<close> calls on a new
  ledger, with any arguments (votes that are rejected and votes that raise included), every
  option of every poll has a counter equal to the length of its voter list, and no voter
  list holds a user twice.
\<close>

theorem poll_counters_consistent:
  "polls_consistent (discord_run ops new_DiscordCommunityInput)"
  by (rule discord_run_consistent) (simp add: polls_consistent_def new_DiscordCommunityInput_def)

theorem poll_counters_consistent_witness:
  "polls_consistent
     (discord_run
        [CreatePoll ''the-keep''
           \<lparr>pd_question = ''Q'', pd_options = [''A'', ''B''], pd_author = ''c'',
            pd_duration = None\<rparr> 1000 1000 1000 1001 ''0.k3j9x2m5p8q'' 1001,
         VoteOnPoll ''poll_1000'' 0 ''u1'', VoteOnPoll ''poll_1000'' 1 ''u2'',
         VoteOnPoll ''poll_1000'' 1 ''u1'', VoteOnPoll ''poll_1000'' (- 1) ''u2'']
        new_DiscordCommunityInput)
   \<and> map (\<lambda>option. (votes option, voters option))
         (options (poll_of
            (discord_run
               [CreatePoll ''the-keep''
                  \<lparr>pd_question = ''Q'', pd_options = [''A'', ''B''], pd_author = ''c'',
                   pd_duration = None\<rparr> 1000 1000 1000 1001 ''0.k3j9x2m5p8q'' 1001,
                VoteOnPoll ''poll_1000'' 0 ''u1'', VoteOnPoll ''poll_1000'' 1 ''u2'',
                VoteOnPoll ''poll_1000'' 1 ''u1'', VoteOnPoll ''poll_1000'' (- 1) ''u2'']
               new_DiscordCommunityInput) ''poll_1000''))
       = [(0, []), (1, [''u1''])]"
proof (rule conjI)
  show "polls_consistent
     (discord_run
        [CreatePoll ''the-keep''
           \<lparr>pd_question = ''Q'', pd_options = [''A'', ''B''], pd_author = ''c'',
            pd_duration = None\<rparr> 1000 1000 1000 1001 ''0.k3j9x2m5p8q'' 1001,
         VoteOnPoll ''poll_1000'' 0 ''u1'', VoteOnPoll ''poll_1000'' 1 ''u2'',
         VoteOnPoll ''poll_1000'' 1 ''u1'', VoteOnPoll ''poll_1000'' (- 1) ''u2'']
        new_DiscordCommunityInput)"
    by (rule poll_counters_consistent)
qed code_simp

text \<open>
  \<^verbatim>\<open>voteOnPoll\<close> returns \<^verbatim>\<open>false\<close> and leaves the ledger as it is for an unknown poll, for
  an inactive poll and for an index at or beyond the number of options. On a known, active
  poll it returns \<^verbatim>\<open>true\<close> for an index from 0 up to that number.
\<close>

lemma voteOnPoll_rejected:
  "(map_of (polls d) pollId = None
      \<or> (\<exists>poll. map_of (polls d) pollId = Some poll
            \<and> (\<not> active poll \<or> optionIndex \<ge> int (length (options poll)))))
   \<Longrightarrow> voteOnPoll d pollId optionIndex user = (Inr False, d)"
  by (auto simp: voteOnPoll_def)

lemma voteOnPoll_accepted:
  assumes "map_of (polls d) pollId = Some poll" and "active poll"
    and "0 \<le> optionIndex" and "optionIndex < int (length (options poll))"
  shows "fst (voteOnPoll d pollId optionIndex user) = Inr True"
proof -
  have "\<not> (\<not> active poll \<or> optionIndex \<ge> int (length (options poll)))"
    using assms(2,4) by simp
  then show ?thesis using assms(1,3) by (simp add: voteOnPoll_def Let_def)
qed

text \<open>
  One user voting on a poll on which nobody has voted: when no index of the sequence is
  negative, so that no call raises, and one index is in range, the counters sum to 1
  afterwards and exactly one option lists the user.
\<close>

lemma removeVote_clears:
  assumes "no_vote opts \<or> single_vote user i opts"
  shows "no_vote (map (removeVote user) opts)"
proof -
  have "votes (removeVote user opt) = 0 \<and> voters (removeVote user opt) = []"
    if "opt \<in> set opts" for opt
  proof -
    from that obtain j where j: "j < length opts" "opts ! j = opt"
      by (auto simp: in_set_conv_nth)
    from assms
    have "(votes opt = 0 \<and> voters opt = []) \<or> (votes opt = 1 \<and> voters opt = [user])"
    proof
      assume "no_vote opts"
      then show ?thesis using that by (simp add: no_vote_def)
    next
      assume "single_vote user i opts"
      then have "voters (opts ! j) = (if j = i then [user] else [])"
        and "votes (opts ! j) = (if j = i then 1 else 0)"
        using j(1) by (simp_all add: single_vote_def)
      then show ?thesis using j(2) by (cases "j = i") simp_all
    qed
    then show ?thesis by (auto simp: voters_removeVote votes_removeVote)
  qed
  then show ?thesis by (simp add: no_vote_def)
qed

lemma push_vote_single:
  assumes "no_vote cl" and "j < length cl"
  shows "single_vote user j
           (cl[j := (cl ! j)\<lparr>voters := voters (cl ! j) @ [user], votes := votes (cl ! j) + 1\<rparr>])"
  using assms by (auto simp: no_vote_def single_vote_def nth_list_update)

lemma single_vote_total:
  assumes "single_vote user i opts"
  shows "sum_list (map votes opts) = 1"
proof -
  have "sum_list (map votes opts) = (\<Sum>j = 0..<length opts. votes (opts ! j))"
    by (simp add: sum_list_sum_nth)
  also have "\<dots> = (\<Sum>j = 0..<length opts. if j = i then 1 else 0)"
    using assms by (intro sum.cong) (auto simp: single_vote_def)
  also have "\<dots> = 1"
    using assms by (simp add: single_vote_def)
  finally show ?thesis .
qed

lemma single_vote_listing:
  assumes "single_vote user i opts"
  shows "length (filter (\<lambda>opt. user \<in> set (voters opt)) opts) = 1"
proof -
  have "{j. j < length opts \<and> user \<in> set (voters (opts ! j))} = {i}"
    using assms by (auto simp: single_vote_def)
  then show ?thesis by (simp add: length_filter_conv_card)
qed

lemma voteOnPoll_in_range:
  assumes "map_of (polls d) pollId = Some poll" and "active poll"
    and "0 \<le> j" and "j < int (length (options poll))"
    and "no_vote (options poll) \<or> single_vote user i (options poll)"
  shows "\<exists>poll'. map_of (polls (snd (voteOnPoll d pollId j user))) pollId = Some poll'
           \<and> active poll' \<and> length (options poll') = length (options poll)
           \<and> single_vote user (nat j) (options poll')"
proof -
  let ?cl = "map (removeVote user) (options poll)"
  let ?voted = "?cl[nat j := (?cl ! nat j)\<lparr>voters := voters (?cl ! nat j) @ [user],
                                           votes := votes (?cl ! nat j) + 1\<rparr>]"
  have guard: "\<not> (\<not> active poll \<or> j \<ge> int (length (options poll)))"
    using assms(2,4) by simp
  have "snd (voteOnPoll d pollId j user)
          = d\<lparr>polls := map_set pollId (poll\<lparr>options := ?voted\<rparr>) (polls d)\<rparr>"
    using assms(1,3) guard by (simp add: voteOnPoll_def Let_def)
  then have "map_of (polls (snd (voteOnPoll d pollId j user))) pollId
               = Some (poll\<lparr>options := ?voted\<rparr>)"
    by (simp add: map_of_map_set)
  moreover have "single_vote user (nat j) ?voted"
    using removeVote_clears[OF assms(5)] assms(3,4) by (intro push_vote_single) simp_all
  ultimately show ?thesis using assms(2) by simp
qed

lemma votes_by_single:
  assumes "map_of (polls d) pollId = Some poll" and "active poll"
    and "no_vote (options poll) \<or> (\<exists>i. single_vote user i (options poll))"
    and "\<forall>i \<in> set indices. 0 \<le> i"
  shows "\<exists>poll'. map_of (polls (votes_by d pollId user indices)) pollId = Some poll'
           \<and> (if \<exists>i \<in> set indices. i < int (length (options poll))
               then \<exists>i. single_vote user i (options poll')
               else poll' = poll)"
  using assms
proof (induction indices arbitrary: d poll)
  case Nil
  then show ?case by simp
next
  case (Cons j indices)
  show ?case
  proof (cases "j < int (length (options poll))")
    case True
    from Cons.prems(3) obtain i where
      "no_vote (options poll) \<or> single_vote user i (options poll)" by blast
    with voteOnPoll_in_range[OF Cons.prems(1,2) _ True] Cons.prems(4)
    obtain poll1 where p1: "map_of (polls (snd (voteOnPoll d pollId j user))) pollId = Some poll1"
      "active poll1" "length (options poll1) = length (options poll)"
      "single_vote user (nat j) (options poll1)"
      by (metis list.set_intros(1))
    from Cons.IH[OF p1(1,2)] p1(4) Cons.prems(4)
    obtain poll' where
      p': "map_of (polls (votes_by (snd (voteOnPoll d pollId j user)) pollId user indices)) pollId
             = Some poll'"
      "if \<exists>i \<in> set indices. i < int (length (options poll1))
       then \<exists>i. single_vote user i (options poll') else poll' = poll1"
      by (metis list.set_intros(2))
    have "\<exists>i. single_vote user i (options poll')"
      using p'(2) p1(4) by (auto split: if_splits)
    then show ?thesis using p'(1) True by auto
  next
    case False
    then have same: "snd (voteOnPoll d pollId j user) = d"
      using Cons.prems(1) by (simp add: voteOnPoll_rejected)
    from Cons.IH[OF Cons.prems(1,2,3)] Cons.prems(4)
    obtain poll' where
      "map_of (polls (votes_by d pollId user indices)) pollId = Some poll'"
      "if \<exists>i \<in> set indices. i < int (length (options poll))
       then \<exists>i. single_vote user i (options poll') else poll' = poll"
      by (metis list.set_intros(2))
    then show ?thesis using same False by auto
  qed
qed

lemma single_voter_sequence:
  assumes "map_of (polls d) pollId = Some poll" and "active poll"
    and "no_vote (options poll)"
    and "\<forall>i \<in> set indices. 0 \<le> i"
    and "\<exists>i \<in> set indices. i < int (length (options poll))"
  shows "total_votes (poll_of (votes_by d pollId user indices) pollId) = 1
         \<and> length (options_listing user (poll_of (votes_by d pollId user indices) pollId)) = 1"
proof -
  from votes_by_single[OF assms(1,2) _ assms(4), of user] assms(3,5)
  obtain poll' i where "map_of (polls (votes_by d pollId user indices)) pollId = Some poll'"
    and "single_vote user i (options poll')"
    by auto
  then show ?thesis
    by (simp add: poll_of_def total_votes_def options_listing_def single_vote_total
        single_vote_listing)
qed

text \<open>The scenario of the two-option poll: the vote of u1 moves from A to B.\<close>

lemma vote_moves:
  "fst (voteOnPoll (snd two_option_poll) ''poll_1000'' 0 ''u1'') = Inr True
   \<and> map votes (options (poll_of u1_voted_A ''poll_1000'')) = [1, 0]
   \<and> fst (voteOnPoll u1_voted_A ''poll_1000'' 1 ''u1'') = Inr True
   \<and> map votes (options (poll_of (snd (voteOnPoll u1_voted_A ''poll_1000'' 1 ''u1''))
                             ''poll_1000'')) = [0, 1]"
  by code_simp

text \<open>
  C2. On the two-option poll, u1 votes for option 0 (accepted, the counters sum to 1) and
  then calls \<^verbatim>\<open>voteOnPoll\<close> with index \<open>-1\<close>: the call raises after it has removed u1's
  vote, and the counters sum to 0 although a valid vote was cast.
\<close>

theorem vote_lost_by_raising_call:
  "fst (voteOnPoll (snd two_option_poll) ''poll_1000'' 0 ''u1'') = Inr True
   \<and> total_votes (poll_of u1_voted_A ''poll_1000'') = 1
   \<and> fst (voteOnPoll u1_voted_A ''poll_1000'' (- 1) ''u1'') = Inl TypeError
   \<and> total_votes (poll_of (snd (voteOnPoll u1_voted_A ''poll_1000'' (- 1) ''u1'')) ''poll_1000'')
       = 0"
  by code_simp

theorem vote_lost_by_raising_call_witness:
  "total_votes
     (poll_of (discord_run [VoteOnPoll ''poll_1000'' 0 ''u1'', VoteOnPoll ''poll_1000'' (- 1) ''u1'']
                 (snd two_option_poll)) ''poll_1000'') \<noteq> 1"
proof -
  have "discord_run [VoteOnPoll ''poll_1000'' 0 ''u1'', VoteOnPoll ''poll_1000'' (- 1) ''u1'']
          (snd two_option_poll)
        = snd (voteOnPoll u1_voted_A ''poll_1000'' (- 1) ''u1'')"
    by (simp add: discord_run_def u1_voted_A_def)
  then show ?thesis using vote_lost_by_raising_call by simp
qed

text \<open>
  C3. \<^verbatim>\<open>voteOnPoll\<close> on a known, active poll with a negative option index does not return
  \<^verbatim>\<open>false\<close>: the guard only tests \<^verbatim>\<open>optionIndex >= poll.options.length\<close>, so the call removes
  the user's previous vote and then raises a \<^verbatim>\<open>TypeError\<close>.
\<close>

theorem voteOnPoll_negative_index_raises:
  assumes "map_of (polls d) pollId = Some poll" and "active poll" and "optionIndex < 0"
  shows "voteOnPoll d pollId optionIndex user =
           (Inl TypeError,
            d\<lparr>polls := map_set pollId (poll\<lparr>options := map (removeVote user) (options poll)\<rparr>)
                          (polls d)\<rparr>)"
proof -
  have "\<not> (\<not> active poll \<or> optionIndex \<ge> int (length (options poll)))"
    using assms(2,3) by simp
  then show ?thesis using assms(1,3) by (simp add: voteOnPoll_def Let_def)
qed

theorem voteOnPoll_negative_index_raises_witness:
  "map_of (polls u1_voted_A) ''poll_1000'' = Some (poll_of u1_voted_A ''poll_1000'')
   \<and> active (poll_of u1_voted_A ''poll_1000'')
   \<and> (- 1 :: int) < 0
   \<and> fst (voteOnPoll u1_voted_A ''poll_1000'' (- 1) ''u1'') = Inl TypeError
   \<and> map votes (options (poll_of u1_voted_A ''poll_1000'')) = [1, 0]
   \<and> map votes (options (poll_of (snd (voteOnPoll u1_voted_A ''poll_1000'' (- 1) ''u1''))
                             ''poll_1000'')) = [0, 0]"
proof -
  have known: "map_of (polls u1_voted_A) ''poll_1000'' = Some (poll_of u1_voted_A ''poll_1000'')"
    by code_simp
  have act: "active (poll_of u1_voted_A ''poll_1000'')"
    by code_simp
  have neg: "(- 1 :: int) < 0"
    by simp
  have "fst (voteOnPoll u1_voted_A ''poll_1000'' (- 1) ''u1'') = Inl TypeError"
    by (simp add: voteOnPoll_negative_index_raises [OF known act neg])
  moreover have "map votes (options (poll_of u1_voted_A ''poll_1000'')) = [1, 0]"
    by code_simp
  moreover have "map votes (options (poll_of (snd (voteOnPoll u1_voted_A ''poll_1000'' (- 1) ''u1''))
                             ''poll_1000'')) = [0, 0]"
    by code_simp
  ultimately show ?thesis using known act neg by blast
qed

section \<open>Properties of the channel/input ledger\<close>

text \<open>
  For a positive limit, \<^verbatim>\<open>getChannelInputs\<close> returns the \<open>limit\<close> most recent inputs of a known
  channel, most recent first, and so at most \<open>limit\<close> of them.
\<close>

lemma getChannelInputs_positive:
  assumes "map_of (channels d) channelId = Some channel" and "0 < limit"
  shows "getChannelInputs d channelId (Some limit) = take (nat limit) (rev (ch_inputs channel))
         \<and> int (length (getChannelInputs d channelId (Some limit))) \<le> limit"
proof -
  have "getChannelInputs d channelId (Some limit) = take (nat limit) (rev (ch_inputs channel))"
    using assms by (simp add: getChannelInputs_def slice_from_neg rev_drop_last)
  moreover have "int (length (take (nat limit) (rev (ch_inputs channel)))) \<le> limit"
    using assms(2) by simp
  ultimately show ?thesis by simp
qed

text \<open>
  C9. With limit 0, \<^verbatim>\<open>getChannelInputs\<close> on a known channel returns every input of the
  channel, most recent first, since \<^verbatim>\<open>slice(-0)\<close> is \<^verbatim>\<open>slice(0)\<close>: more than the 0 inputs
  that "at most limit" allows as soon as the channel has an input.
\<close>

theorem getChannelInputs_limit_zero:
  assumes "map_of (channels d) channelId = Some channel"
  shows "getChannelInputs d channelId (Some 0) = rev (ch_inputs channel)"
  using assms by (simp add: getChannelInputs_def slice_from_zero)

theorem getChannelInputs_limit_zero_witness:
  "map_of (channels hi_in_sanctuary) ''sanctuary'' = Some (channel_of hi_in_sanctuary ''sanctuary'')
   \<and> map in_content (getChannelInputs hi_in_sanctuary ''sanctuary'' (Some 0)) = [''hi'']
   \<and> \<not> int (length (getChannelInputs hi_in_sanctuary ''sanctuary'' (Some 0))) \<le> 0"
proof -
  have known: "map_of (channels hi_in_sanctuary) ''sanctuary''
                 = Some (channel_of hi_in_sanctuary ''sanctuary'')"
    by code_simp
  have inputs: "map in_content (ch_inputs (channel_of hi_in_sanctuary ''sanctuary'')) = [''hi'']"
    by code_simp
  have "map in_content (getChannelInputs hi_in_sanctuary ''sanctuary'' (Some 0)) = [''hi'']"
    using inputs by (simp add: getChannelInputs_limit_zero [OF known] rev_map [symmetric])
  moreover from this
  have "length (getChannelInputs hi_in_sanctuary ''sanctuary'' (Some 0)) = 1"
    by (metis length_map length_Cons list.size(3) One_nat_def)
  ultimately show ?thesis using known by simp
qed

text \<open>
  C7. \<^verbatim>\<open>addInput\<close> to a known channel makes the new input the one that
  \<^verbatim>\<open>getChannelInputs\<close> returns for that channel with limit 1, with the id that \<^verbatim>\<open>addInput\<close>
  returned and with its content. \<^verbatim>\<open>addInput\<close> to an unknown channel returns an id all the
  same and appends the input to the global list, so that \<^verbatim>\<open>totalInputs\<close> of
  \<^verbatim>\<open>getCommunityActivity\<close> grows by one, while \<^verbatim>\<open>getChannelInputs\<close> on that channel is empty
  for every limit.
\<close>

theorem addInput_channel_visibility:
  fixes d channelId input tId rnd tStamp
  defines "r \<equiv> addInput d channelId input tId rnd tStamp"
  shows "(map_of (channels d) channelId \<noteq> None \<longrightarrow>
            (\<exists>x. getChannelInputs (snd r) channelId (Some 1) = [x]
                 \<and> in_id x = fst r
                 \<and> in_content x = (case arg_content input of None \<Rightarrow> [] | Some c \<Rightarrow> c)))
       \<and> (map_of (channels d) channelId = None \<longrightarrow>
            fst r = ''input_'' @ toString tId @ ''_'' @ substr 2 9 rnd
            \<and> (\<exists>x. inputs (snd r) = inputs d @ [x] \<and> in_id x = fst r)
            \<and> totalInputs (getCommunityActivity (snd r) now nowPolls)
                = totalInputs (getCommunityActivity d now nowPolls) + 1
            \<and> (\<forall>limit. getChannelInputs (snd r) channelId limit = []))"
  unfolding r_def
  by (auto simp: addInput_def Let_def getChannelInputs_def getCommunityActivity_def
      map_of_map_set slice_from_last split: option.splits)

theorem addInput_channel_visibility_witness:
  "map_of (channels new_DiscordCommunityInput) ''sanctuary'' \<noteq> None
   \<and> map in_content (getChannelInputs hi_in_sanctuary ''sanctuary'' (Some 1)) = [''hi'']
   \<and> map_of (channels new_DiscordCommunityInput) ''unknown-channel'' = None
   \<and> fst (addInput new_DiscordCommunityInput ''unknown-channel''
             \<lparr>arg_content = Some ''hi'', arg_author = Some ''u1'', arg_type = None\<rparr>
             1000 ''0.k3j9x2m5p8q'' 1000) = ''input_1000_k3j9x2m5p''
   \<and> totalInputs (getCommunityActivity
         (snd (addInput new_DiscordCommunityInput ''unknown-channel''
                 \<lparr>arg_content = Some ''hi'', arg_author = Some ''u1'', arg_type = None\<rparr>
                 1000 ''0.k3j9x2m5p8q'' 1000)) 2000 2000) = 1
   \<and> getChannelInputs
         (snd (addInput new_DiscordCommunityInput ''unknown-channel''
                 \<lparr>arg_content = Some ''hi'', arg_author = Some ''u1'', arg_type = None\<rparr>
                 1000 ''0.k3j9x2m5p8q'' 1000)) ''unknown-channel'' (Some 10) = []"
proof -
  let ?arg = "\<lparr>arg_content = Some ''hi'', arg_author = Some ''u1'', arg_type = None\<rparr>"
  have known: "map_of (channels new_DiscordCommunityInput) ''sanctuary'' \<noteq> None"
    by code_simp
  have unknown: "map_of (channels new_DiscordCommunityInput) ''unknown-channel'' = None"
    by code_simp
  note vis = addInput_channel_visibility
  from known vis [of new_DiscordCommunityInput "''sanctuary''" ?arg 1000 "''0.k3j9x2m5p8q''" 1000]
  obtain x where "getChannelInputs hi_in_sanctuary ''sanctuary'' (Some 1) = [x]"
    and "in_content x = ''hi''"
    unfolding hi_in_sanctuary_def by auto
  then have a: "map in_content (getChannelInputs hi_in_sanctuary ''sanctuary'' (Some 1)) = [''hi'']"
    by simp
  from unknown
    vis [of new_DiscordCommunityInput "''unknown-channel''" ?arg 1000 "''0.k3j9x2m5p8q''" 1000
           2000 2000]
  have b: "getChannelInputs
         (snd (addInput new_DiscordCommunityInput ''unknown-channel'' ?arg
                 1000 ''0.k3j9x2m5p8q'' 1000)) ''unknown-channel'' (Some 10) = []"
    and c: "totalInputs (getCommunityActivity
         (snd (addInput new_DiscordCommunityInput ''unknown-channel'' ?arg
                 1000 ''0.k3j9x2m5p8q'' 1000)) 2000 2000)
       = totalInputs (getCommunityActivity new_DiscordCommunityInput 2000 2000) + 1"
    by blast+
  have d: "totalInputs (getCommunityActivity new_DiscordCommunityInput 2000 2000) = 0"
    by code_simp
  have e: "fst (addInput new_DiscordCommunityInput ''unknown-channel'' ?arg
             1000 ''0.k3j9x2m5p8q'' 1000) = ''input_1000_k3j9x2m5p''"
    by code_simp
  show ?thesis using known a unknown b c d e by simp
qed

section \<open>Properties of the event scheduler\<close>

lemma rsvpToEvent_unknown:
  "find (\<lambda>e. ev_id e = eventId) (events c) = None
   \<Longrightarrow> rsvpToEvent c eventId memberId rsvp now = (False, c)"
  by (simp add: rsvpToEvent_def)

lemma rsvpToEvent_known:
  assumes "find (\<lambda>e. ev_id e = eventId) (events c) = Some event"
  shows "fst (rsvpToEvent c eventId memberId rsvp now) = True"
    and "find (\<lambda>e. ev_id e = eventId) (events (snd (rsvpToEvent c eventId memberId rsvp now)))
         = Some (event\<lparr>attendees :=
                         filter (\<lambda>a. att_memberId a \<noteq> memberId) (attendees event)
                         @ [\<lparr>att_memberId = memberId,
                             att_status = (case rsvp of None \<Rightarrow> Attending | Some s \<Rightarrow> s),
                             rsvpAt = now\<rparr>]\<rparr>)"
proof -
  have id: "ev_id event = eventId" using find_Some_holds[OF assms] .
  show "fst (rsvpToEvent c eventId memberId rsvp now) = True"
    using assms by (simp add: rsvpToEvent_def Let_def)
  show "find (\<lambda>e. ev_id e = eventId) (events (snd (rsvpToEvent c eventId memberId rsvp now)))
         = Some (event\<lparr>attendees :=
                         filter (\<lambda>a. att_memberId a \<noteq> memberId) (attendees event)
                         @ [\<lparr>att_memberId = memberId,
                             att_status = (case rsvp of None \<Rightarrow> Attending | Some s \<Rightarrow> s),
                             rsvpAt = now\<rparr>]\<rparr>)"
    using assms id by (simp add: rsvpToEvent_def Let_def find_update_first_same)
qed

lemma rsvp_all_last:
  assumes "calls \<noteq> []" and "find (\<lambda>e. ev_id e = eventId) (events c) = Some event"
  shows "\<exists>event'. find (\<lambda>e. ev_id e = eventId) (events (rsvp_all c eventId memberId calls))
                     = Some event'
           \<and> filter (\<lambda>a. att_memberId a = memberId) (attendees event')
               = [\<lparr>att_memberId = memberId,
                   att_status = (case fst (last calls) of None \<Rightarrow> Attending | Some s \<Rightarrow> s),
                   rsvpAt = snd (last calls)\<rparr>]"
  using assms
proof (induction calls arbitrary: c event)
  case Nil
  then show ?case by simp
next
  case (Cons call calls)
  let ?c1 = "snd (rsvpToEvent c eventId memberId (fst call) (snd call))"
  let ?e1 = "event\<lparr>attendees :=
                         filter (\<lambda>a. att_memberId a \<noteq> memberId) (attendees event)
                         @ [\<lparr>att_memberId = memberId,
                             att_status = (case fst call of None \<Rightarrow> Attending | Some s \<Rightarrow> s),
                             rsvpAt = snd call\<rparr>]\<rparr>"
  have found: "find (\<lambda>e. ev_id e = eventId) (events ?c1) = Some ?e1"
    using rsvpToEvent_known(2)[OF Cons.prems(2)] .
  show ?case
  proof (cases "calls = []")
    case True
    have "filter (\<lambda>a. att_memberId a = memberId) (attendees ?e1)
            = [\<lparr>att_memberId = memberId,
                att_status = (case fst call of None \<Rightarrow> Attending | Some s \<Rightarrow> s),
                rsvpAt = snd call\<rparr>]"
      by (simp add: filter_empty_conv)
    then show ?thesis using True found by simp
  next
    case False
    from Cons.IH[OF False found] show ?thesis using False by simp
  qed
qed

text \<open>
  C6. \<^verbatim>\<open>rsvpToEvent\<close> returns \<^verbatim>\<open>false\<close> and changes nothing when no event has the id, and
  \<^verbatim>\<open>true\<close> otherwise. After any non-empty sequence of RSVPs of one member to one known event,
  the attendees of that event hold exactly one record of the member, with the status and
  the time of the last call.
\<close>

theorem rsvp_replaces:
  "(find (\<lambda>e. ev_id e = eventId) (events c) = None \<longrightarrow>
      rsvpToEvent c eventId memberId rsvp now = (False, c))
   \<and> (find (\<lambda>e. ev_id e = eventId) (events c) \<noteq> None \<longrightarrow>
        fst (rsvpToEvent c eventId memberId rsvp now) = True)
   \<and> (find (\<lambda>e. ev_id e = eventId) (events c) \<noteq> None \<and> calls \<noteq> [] \<longrightarrow>
        (\<exists>event'. find (\<lambda>e. ev_id e = eventId) (events (rsvp_all c eventId memberId calls))
                     = Some event'
           \<and> filter (\<lambda>a. att_memberId a = memberId) (attendees event')
               = [\<lparr>att_memberId = memberId,
                   att_status = (case fst (last calls) of None \<Rightarrow> Attending | Some s \<Rightarrow> s),
                   rsvpAt = snd (last calls)\<rparr>]))"
  using rsvpToEvent_unknown rsvpToEvent_known(1) rsvp_all_last by blast

theorem rsvp_replaces_witness:
  "find (\<lambda>e. ev_id e = ''event_1000'') (events (snd spiral_session)) \<noteq> None
   \<and> [(None, 2000), (Some Declined, 3000)] \<noteq> ([] :: (rsvp_status option \<times> int) list)
   \<and> map (\<lambda>a. (att_memberId a, att_status a, rsvpAt a))
        (attendees (the (find (\<lambda>e. ev_id e = ''event_1000'')
           (events (rsvp_all (snd spiral_session) ''event_1000'' ''m1''
                      [(None, 2000), (Some Declined, 3000)])))))
       = [(''m1'', Declined, 3000)]
   \<and> find (\<lambda>e. ev_id e = ''event_9'') (events (snd spiral_session)) = None
   \<and> rsvpToEvent (snd spiral_session) ''event_9'' ''m1'' None 2000 = (False, snd spiral_session)"
proof -
  have known: "find (\<lambda>e. ev_id e = ''event_1000'') (events (snd spiral_session)) \<noteq> None"
    by code_simp
  have unknown: "find (\<lambda>e. ev_id e = ''event_9'') (events (snd spiral_session)) = None"
    by code_simp
  have "rsvpToEvent (snd spiral_session) ''event_9'' ''m1'' None 2000 = (False, snd spiral_session)"
    using unknown rsvp_replaces [of "''event_9''" "snd spiral_session" "''m1''" None 2000] by blast
  moreover have "map (\<lambda>a. (att_memberId a, att_status a, rsvpAt a))
        (attendees (the (find (\<lambda>e. ev_id e = ''event_1000'')
           (events (rsvp_all (snd spiral_session) ''event_1000'' ''m1''
                      [(None, 2000), (Some Declined, 3000)])))))
       = [(''m1'', Declined, 3000)]"
    by code_simp
  moreover have "[(None, 2000), (Some Declined, 3000)] \<noteq> ([] :: (rsvp_status option \<times> int) list)"
    by simp
  ultimately show ?thesis using known unknown by blast
qed


section \<open>Properties of the consensus engine\<close>









text \<open>
  Doubles decide at the boundary: with the threshold \<^verbatim>\<open>0.2\<close> and one supporting ballot of
  five, the quotient \<^verbatim>\<open>1 / 5\<close> is the double \<^verbatim>\<open>0.2\<close> itself and the item is approved,
  although \<open>1 / 5\<close> is below the value of that double.
\<close>

lemma one_of_five_approved:
  "length (support (ci_votes (item_of one_of_five ''consensus_1000''))) = 1
   \<and> length (oppose (ci_votes (item_of one_of_five ''consensus_1000''))) = 4
   \<and> consensusThreshold (item_of one_of_five ''consensus_1000'') = fl (2 / 10)
   \<and> status (item_of one_of_five ''consensus_1000'') = Approved"
  by code_simp



section \<open>Properties of the consciousness store and of the facade\<close>

text \<open>
  The import on arguments that have properties. \<^verbatim>\<open>importFromSync\<close> on the empty object, and
  on any object without a \<^verbatim>\<open>consciousness\<close> property, returns \<^verbatim>\<open>false\<close> and leaves the whole
  system as it is; on any object it either returns \<^verbatim>\<open>true\<close> or returns \<^verbatim>\<open>false\<close> with the
  system unchanged. \<^verbatim>\<open>importState\<close> returns \<^verbatim>\<open>true\<close> exactly when the version of its argument
  is the string \<^verbatim>\<open>1.0\<close>; it then merges the payload into the state and, when the write
  succeeds, stores the merged state. With any other version the store is unchanged, and
  the call returns \<^verbatim>\<open>false\<close> unless the argument is \<^verbatim>\<open>undefined\<close> or \<^verbatim>\<open>null\<close>.
\<close>

lemma importState_version:
  "(fst (importState p importedState writeOk) = Inr True)
     = (version_of importedState = Some (JStr ''1.0''))"
  by (cases importedState rule: version_of.cases)
     (auto simp: importState_def split: jsval.splits)

lemma importState_mismatch:
  assumes "version_of importedState \<noteq> Some (JStr ''1.0'')"
  shows "snd (importState p importedState writeOk) = p"
    and "\<not> nullish importedState \<Longrightarrow> fst (importState p importedState writeOk) = Inr False"
  using assms
  by (cases importedState rule: version_of.cases; auto simp: importState_def split: jsval.splits)+

lemma importState_match:
  assumes "version_of importedState = Some (JStr ''1.0'')"
  shows "\<exists>data. importedState = Obj data
           \<and> importState p importedState writeOk = (Inr True, saveState p data writeOk)"
  using assms by (cases importedState rule: version_of.cases) (auto simp: importState_def)

lemma truthy_not_nullish: "truthy x \<Longrightarrow> \<not> nullish x"
  by (cases x rule: truthy.cases) auto

lemma importFromSync_object:
  "importFromSync sys (Obj sd) writeOk =
     (if truthy (sd_consciousness sd)
           \<and> version_of (sd_consciousness sd) = Some (JStr ''1.0'')
      then (Inr True,
            sys\<lparr>consciousness :=
                  snd (importState (consciousness sys) (sd_consciousness sd) writeOk)\<rparr>)
      else (Inr False, sys))"
proof (cases "truthy (sd_consciousness sd)")
  case False
  then show ?thesis by (simp add: importFromSync_def)
next
  case True
  then have nn: "\<not> nullish (sd_consciousness sd)" by (rule truthy_not_nullish)
  show ?thesis
  proof (cases "version_of (sd_consciousness sd) = Some (JStr ''1.0'')")
    case v: True
    then have "fst (importState (consciousness sys) (sd_consciousness sd) writeOk) = Inr True"
      by (simp add: importState_version)
    then show ?thesis using True v
      by (simp add: importFromSync_def split_beta prod_eq_iff)
  next
    case v: False
    have "importState (consciousness sys) (sd_consciousness sd) writeOk
            = (Inr False, consciousness sys)"
      using importState_mismatch[OF v] nn by (simp add: prod_eq_iff)
    then show ?thesis using True v by (simp add: importFromSync_def)
  qed
qed

lemma import_rejection_of_objects:
  "importFromSync sys empty_object writeOk = (Inr False, sys)
   \<and> (sd_consciousness sd = Prim JUndefined \<longrightarrow>
        importFromSync sys (Obj sd) writeOk = (Inr False, sys))
   \<and> (fst (importFromSync sys (Obj sd) writeOk) = Inr True
        \<or> importFromSync sys (Obj sd) writeOk = (Inr False, sys))
   \<and> ((fst (importState p importedState writeOk) = Inr True)
        = (version_of importedState = Some (JStr ''1.0'')))
   \<and> (version_of importedState = Some (JStr ''1.0'') \<longrightarrow>
        (\<exists>data. importedState = Obj data
           \<and> currentState (snd (importState p importedState writeOk))
               = spread_state (currentState p) data
           \<and> stored (snd (importState p importedState writeOk))
               = (if writeOk then Some (spread_state (currentState p) data) else stored p)))
   \<and> (version_of importedState \<noteq> Some (JStr ''1.0'') \<longrightarrow>
        snd (importState p importedState writeOk) = p)
   \<and> (version_of importedState \<noteq> Some (JStr ''1.0'') \<and> \<not> nullish importedState \<longrightarrow>
        importState p importedState writeOk = (Inr False, p))"
proof (intro conjI impI)
  show "importFromSync sys empty_object writeOk = (Inr False, sys)"
    by (simp add: empty_object_def importFromSync_object)
  show "importFromSync sys (Obj sd) writeOk = (Inr False, sys)"
    if "sd_consciousness sd = Prim JUndefined"
    using that by (simp add: importFromSync_object)
  show "fst (importFromSync sys (Obj sd) writeOk) = Inr True
        \<or> importFromSync sys (Obj sd) writeOk = (Inr False, sys)"
    by (simp add: importFromSync_object)
  show "(fst (importState p importedState writeOk) = Inr True)
        = (version_of importedState = Some (JStr ''1.0''))"
    by (rule importState_version)
  show "\<exists>data. importedState = Obj data
           \<and> currentState (snd (importState p importedState writeOk))
               = spread_state (currentState p) data
           \<and> stored (snd (importState p importedState writeOk))
               = (if writeOk then Some (spread_state (currentState p) data) else stored p)"
    if "version_of importedState = Some (JStr ''1.0'')"
    using importState_match[OF that, of p writeOk] by (auto simp: saveState_def Let_def)
  show "snd (importState p importedState writeOk) = p"
    if "version_of importedState \<noteq> Some (JStr ''1.0'')"
    using that by (rule importState_mismatch(1))
  show "importState p importedState writeOk = (Inr False, p)"
    if "version_of importedState \<noteq> Some (JStr ''1.0'') \<and> \<not> nullish importedState"
    using that importState_mismatch[of importedState p writeOk] by (simp add: prod_eq_iff)
qed

text \<open>
  C4. \<^verbatim>\<open>importState\<close> on \<^verbatim>\<open>null\<close> and on \<^verbatim>\<open>undefined\<close>, arguments whose version is not
  \<^verbatim>\<open>1.0\<close>, does not return \<^verbatim>\<open>false\<close>: reading \<^verbatim>\<open>.version\<close> raises a \<^verbatim>\<open>TypeError\<close>. So does
  \<^verbatim>\<open>importFromSync\<close> on \<^verbatim>\<open>null\<close> and on \<^verbatim>\<open>undefined\<close>, payloads without a \<^verbatim>\<open>consciousness\<close>
  key, when it reads \<^verbatim>\<open>.consciousness\<close>. The store and the system are left as they are.
\<close>

theorem import_of_null_raises:
  "importState p (Prim JNull) writeOk = (Inl TypeError, p)
   \<and> importState p (Prim JUndefined) writeOk = (Inl TypeError, p)
   \<and> importFromSync sys (Prim JNull) writeOk = (Inl TypeError, sys)
   \<and> importFromSync sys (Prim JUndefined) writeOk = (Inl TypeError, sys)"
  by (simp add: importState_def importFromSync_def)

theorem import_of_null_raises_witness:
  "version_of (Prim JNull) \<noteq> Some (JStr ''1.0'')
   \<and> fst (importState fresh_store (Prim JNull) True) \<noteq> Inr False
   \<and> fst (importFromSync demo_system (Prim JNull) True) \<noteq> Inr False"
  using import_of_null_raises [of fresh_store True demo_system] by simp

text \<open>
  C5. Importing the export of a store into any store (a new one in particular) returns
  \<^verbatim>\<open>true\<close>, and the resulting state has the user id, phase, spiral, community and
  preferences of the exported state. \<^verbatim>\<open>lastActive\<close> is carried over as well, and the state
  acquires the \<^verbatim>\<open>exportedAt\<close> of the export.
\<close>

theorem export_import_round_trip:
  "fst (importState target (Obj (exportState p tExport)) writeOk) = Inr True
   \<and> userId (getState (snd (importState target (Obj (exportState p tExport)) writeOk)))
       = userId (getState p)
   \<and> currentPhase (getState (snd (importState target (Obj (exportState p tExport)) writeOk)))
       = currentPhase (getState p)
   \<and> spiral (getState (snd (importState target (Obj (exportState p tExport)) writeOk)))
       = spiral (getState p)
   \<and> community (getState (snd (importState target (Obj (exportState p tExport)) writeOk)))
       = community (getState p)
   \<and> preferences (getState (snd (importState target (Obj (exportState p tExport)) writeOk)))
       = preferences (getState p)
   \<and> lastActive (getState (snd (importState target (Obj (exportState p tExport)) writeOk)))
       = lastActive (getState p)
   \<and> extra_exportedAt (getState (snd (importState target (Obj (exportState p tExport)) writeOk)))
       = Some tExport"
  by (simp add: importState_def exportState_def saveState_def spread_state_def getState_def Let_def)

theorem export_import_round_trip_witness:
  "fst (importState other_device (Obj (exportState (consciousness contributor_system) 3000)) True)
     = Inr True
   \<and> userId (getState (snd (importState other_device
         (Obj (exportState (consciousness contributor_system) 3000)) True))) = ''user_1000''
   \<and> community (getState (snd (importState other_device
         (Obj (exportState (consciousness contributor_system) 3000)) True)))
       = Obj \<lparr>participationLevel = JStr ''contributor'', contributionCount = JNum (Num 0),
              lastContribution = JNull\<rparr>
   \<and> userId (getState other_device) = ''user_5000''"
proof -
  note rt = export_import_round_trip [of other_device "consciousness contributor_system" 3000 True]
  have u: "userId (getState (consciousness contributor_system)) = ''user_1000''"
    by code_simp
  have c: "community (getState (consciousness contributor_system))
             = Obj \<lparr>participationLevel = JStr ''contributor'', contributionCount = JNum (Num 0),
                    lastContribution = JNull\<rparr>"
    by code_simp
  have o: "userId (getState other_device) = ''user_5000''"
    by code_simp
  from rt u c o show ?thesis by simp
qed

text \<open>
  Adding one to a count: exact for every integer from \<open>- (2 ^ 53)\<close> to \<open>2 ^ 53 - 1\<close>.
\<close>

lemma plus_one_safe_integer:
  assumes "- (2 ^ 53) \<le> k" and "k < 2 ^ 53"
  shows "plus_one (JNum (Num (of_int k))) = JNum (Num (of_int (k + 1)))"
proof -
  have "\<bar>k + 1\<bar> \<le> 2 ^ 53" using assms by linarith
  then have "fl (of_int (k + 1)) = Num (of_int (k + 1))" by (rule fl_int)
  then show ?thesis by simp
qed

lemma level_value_name: "level_value (JStr (level_name l)) = Some l"
  by (cases l) (simp_all add: level_value_def)

lemma level_value_Some: "level_value v = Some l \<Longrightarrow> v = JStr (level_name l)"
  by (cases l) (auto simp: level_value_def split: if_splits)

lemma addCommunityInput_object:
  assumes "community (getState (consciousness sys)) = Obj c"
  shows "addCommunityInput sys channelId content author tId rnd tStamp tContribution tActive writeOk
         = (Inr (fst (addInput (discord sys) channelId
                        \<lparr>arg_content = Some content, arg_author = Some author, arg_type = None\<rparr>
                        tId rnd tStamp)),
            sys\<lparr>discord := snd (addInput (discord sys) channelId
                        \<lparr>arg_content = Some content, arg_author = Some author, arg_type = None\<rparr>
                        tId rnd tStamp),
                consciousness :=
                  updateCommunityParticipation (consciousness sys)
                    \<lparr>pc_participationLevel = Some (JStr ''active''),
                     pc_contributionCount = Some (plus_one (contributionCount c)),
                     pc_lastContribution = Some (JNum (time_number tContribution))\<rparr>
                    tActive writeOk\<rparr>)"
  using assms by (simp add: addCommunityInput_def Let_def split_beta)

text \<open>
  C8, as the code has it. On a state whose \<^verbatim>\<open>community\<close> is an object, every
  \<^verbatim>\<open>addCommunityInput\<close> returns the id of the input and leaves a \<^verbatim>\<open>community\<close> whose
  \<^verbatim>\<open>contributionCount\<close> is the value of \<^verbatim>\<open>contributionCount + 1\<close>, whose \<^verbatim>\<open>lastContribution\<close>
  is the clock value read, and whose \<^verbatim>\<open>participationLevel\<close> is \<^verbatim>\<open>active\<close>. The count is
  exactly one more when it was an integer from \<open>- (2 ^ 53)\<close> to \<open>2 ^ 53 - 1\<close>. From
  \<^verbatim>\<open>observer\<close> and from \<^verbatim>\<open>active\<close> the level is not lowered.
\<close>

theorem addCommunityInput_participation:
  "community (getState (consciousness sys)) = Obj c \<longrightarrow>
     fst (addCommunityInput sys channelId content author tId rnd tStamp tContribution tActive
            writeOk)
       = Inr (fst (addInput (discord sys) channelId
                     \<lparr>arg_content = Some content, arg_author = Some author, arg_type = None\<rparr>
                     tId rnd tStamp))
     \<and> community (getState (consciousness
          (snd (addCommunityInput sys channelId content author tId rnd tStamp tContribution
                  tActive writeOk))))
         = Obj \<lparr>participationLevel = JStr (level_name Active),
                contributionCount = plus_one (contributionCount c),
                lastContribution = JNum (time_number tContribution)\<rparr>
     \<and> (contributionCount c = JNum (Num (of_int k)) \<and> - (2 ^ 53) \<le> k \<and> k < 2 ^ 53 \<longrightarrow>
          count_of (snd (addCommunityInput sys channelId content author tId rnd tStamp
                           tContribution tActive writeOk))
            = JNum (Num (of_int (k + 1))))
     \<and> level_of (snd (addCommunityInput sys channelId content author tId rnd tStamp tContribution
                        tActive writeOk)) = Some Active
     \<and> (level_of sys = Some l \<and> l \<noteq> Contributor \<longrightarrow>
          (\<exists>l'. level_of (snd (addCommunityInput sys channelId content author tId rnd tStamp
                                   tContribution tActive writeOk)) = Some l'
                \<and> level_rank l \<le> level_rank l'))"
proof (intro impI)
  assume obj: "community (getState (consciousness sys)) = Obj c"
  let ?r = "addCommunityInput sys channelId content author tId rnd tStamp tContribution tActive
              writeOk"
  have res: "community (getState (consciousness (snd ?r)))
         = Obj \<lparr>participationLevel = JStr (level_name Active),
                contributionCount = plus_one (contributionCount c),
                lastContribution = JNum (time_number tContribution)\<rparr>"
    by (simp add: addCommunityInput_object[OF obj] updateCommunityParticipation_def saveState_def
        spread_state_def spread_community_def no_properties_def getState_def Let_def)
  have id: "fst ?r = Inr (fst (addInput (discord sys) channelId
                     \<lparr>arg_content = Some content, arg_author = Some author, arg_type = None\<rparr>
                     tId rnd tStamp))"
    by (simp add: addCommunityInput_object[OF obj])
  have cnt: "count_of (snd ?r) = JNum (Num (of_int (k + 1)))"
    if "contributionCount c = JNum (Num (of_int k)) \<and> - (2 ^ 53) \<le> k \<and> k < 2 ^ 53"
  proof -
    from that have "plus_one (contributionCount c) = JNum (Num (of_int (k + 1)))"
      using plus_one_safe_integer[of k] by metis
    then show ?thesis
      unfolding count_of_def res by simp
  qed
  have lvl: "level_of (snd ?r) = Some Active"
    using res by (simp add: level_of_def level_value_def)
  have rank: "level_rank l \<le> level_rank Active" if "level_of sys = Some l \<and> l \<noteq> Contributor"
    using that by (cases l) simp_all
  show "fst ?r = Inr (fst (addInput (discord sys) channelId
                     \<lparr>arg_content = Some content, arg_author = Some author, arg_type = None\<rparr>
                     tId rnd tStamp))
     \<and> community (getState (consciousness (snd ?r)))
         = Obj \<lparr>participationLevel = JStr (level_name Active),
                contributionCount = plus_one (contributionCount c),
                lastContribution = JNum (time_number tContribution)\<rparr>
     \<and> (contributionCount c = JNum (Num (of_int k)) \<and> - (2 ^ 53) \<le> k \<and> k < 2 ^ 53 \<longrightarrow>
          count_of (snd ?r) = JNum (Num (of_int (k + 1))))
     \<and> level_of (snd ?r) = Some Active
     \<and> (level_of sys = Some l \<and> l \<noteq> Contributor \<longrightarrow>
          (\<exists>l'. level_of (snd ?r) = Some l' \<and> level_rank l \<le> level_rank l'))"
    using id res cnt lvl rank by blast
qed


theorem addCommunityInput_participation_witness:
  "community (getState (consciousness demo_system))
     = Obj \<lparr>participationLevel = JStr ''observer'', contributionCount = JNum (Num (of_int 0)),
            lastContribution = JNull\<rparr>
   \<and> - (2 ^ 53) \<le> (0 :: int) \<and> (0 :: int) < 2 ^ 53
   \<and> level_of demo_system = Some Observer \<and> Observer \<noteq> Contributor
   \<and> fst (addCommunityInput demo_system ''sanctuary'' ''hi'' ''u1''
             2000 ''0.k3j9x2m5p8q'' 2000 2001 2002 True) = Inr ''input_2000_k3j9x2m5p''
   \<and> count_of (snd (addCommunityInput demo_system ''sanctuary'' ''hi'' ''u1''
                      2000 ''0.k3j9x2m5p8q'' 2000 2001 2002 True)) = JNum (Num (of_int (0 + 1)))
   \<and> community (getState (consciousness
         (snd (addCommunityInput demo_system ''sanctuary'' ''hi'' ''u1''
                 2000 ''0.k3j9x2m5p8q'' 2000 2001 2002 True))))
       = Obj \<lparr>participationLevel = JStr (level_name Active),
              contributionCount = plus_one (JNum (Num (of_int 0))),
              lastContribution = JNum (time_number 2001)\<rparr>
   \<and> level_of (snd (addCommunityInput demo_system ''sanctuary'' ''hi'' ''u1''
                      2000 ''0.k3j9x2m5p8q'' 2000 2001 2002 True)) = Some Active"
proof -
  let ?c = "\<lparr>participationLevel = JStr ''observer'', contributionCount = JNum (Num (of_int 0)),
             lastContribution = JNull\<rparr>"
  have obj: "community (getState (consciousness demo_system)) = Obj ?c"
    by code_simp
  have rng: "- (2 ^ 53) \<le> (0 :: int) \<and> (0 :: int) < 2 ^ 53"
    by simp
  have lvl: "level_of demo_system = Some Observer \<and> Observer \<noteq> Contributor"
    by code_simp
  have ident: "fst (addInput (discord demo_system) ''sanctuary''
                  \<lparr>arg_content = Some ''hi'', arg_author = Some ''u1'', arg_type = None\<rparr>
                  2000 ''0.k3j9x2m5p8q'' 2000) = ''input_2000_k3j9x2m5p''"
    by code_simp
  have cnt: "contributionCount ?c = JNum (Num (of_int 0))"
    by simp
  note p = addCommunityInput_participation
             [where sys = demo_system and c = ?c and channelId = "''sanctuary''"
                and content = "''hi''" and author = "''u1''" and tId = 2000
                and rnd = "''0.k3j9x2m5p8q''" and tStamp = 2000 and tContribution = 2001
                and tActive = 2002 and writeOk = True and k = 0 and l = Observer]
  from p obj ident cnt rng lvl show ?thesis
    by (simp only: simp_thms)
qed

text \<open>
  C8, as stated, fails in three ways. A member whose level is \<^verbatim>\<open>contributor\<close> is set to
  \<^verbatim>\<open>active\<close>, which is lower. A count of \<open>2 ^ 53\<close> stays \<open>2 ^ 53\<close>, since the sum is a
  double. On a state whose \<^verbatim>\<open>community\<close> is \<^verbatim>\<open>null\<close> the call raises and updates nothing in
  the store.
\<close>

theorem addCommunityInput_demotes_contributor:
  "level_of contributor_system = Some Contributor
   \<and> level_of (snd (addCommunityInput contributor_system ''sanctuary'' ''hi'' ''u1''
                      2000 ''0.k3j9x2m5p8q'' 2000 2001 2002 True)) = Some Active
   \<and> \<not> level_rank Contributor \<le> level_rank Active
   \<and> count_of big_count_system = JNum (Num (2 ^ 53))
   \<and> count_of (snd (addCommunityInput big_count_system ''sanctuary'' ''hi'' ''u1''
                      2000 ''0.k3j9x2m5p8q'' 2000 2001 2002 True)) = JNum (Num (2 ^ 53))
   \<and> community (getState (consciousness null_community_system)) = Prim JNull
   \<and> fst (addCommunityInput null_community_system ''sanctuary'' ''hi'' ''u1''
             2000 ''0.k3j9x2m5p8q'' 2000 2001 2002 True) = Inl TypeError
   \<and> consciousness (snd (addCommunityInput null_community_system ''sanctuary'' ''hi'' ''u1''
                            2000 ''0.k3j9x2m5p8q'' 2000 2001 2002 True))
       = consciousness null_community_system"
  by code_simp

end
